theory Spec2Isabelle
  imports Complex_Main "HOL-Library.AList"
begin

section \<open>Data model\<close>

text \<open>
  The ledger of \<^verbatim>\<open>cypher/transaction.py\<close>, \<^verbatim>\<open>cypher/block.py\<close>,
  \<^verbatim>\<open>cypher/utils.py\<close> and \<^verbatim>\<open>cypher/blockchain.py\<close>.

  Python values are modelled as follows: \<^verbatim>\<open>int\<close> is \<^typ>\<open>int\<close>, \<^verbatim>\<open>str\<close> and
  \<^verbatim>\<open>bytes\<close> are \<^typ>\<open>string\<close>, \<^verbatim>\<open>Optional[str]\<close> is \<^typ>\<open>string option\<close>,
  \<^verbatim>\<open>float\<close> is \<^typ>\<open>real\<close> (timestamps are only stored and compared), a
  dataclass is a record, and a \<^verbatim>\<open>dict\<close> is an association list in insertion
  order, read with \<^const>\<open>map_of\<close>, written with \<^const>\<open>AList.update\<close> (an
  existing key keeps its place, a new key goes last) and shortened with
  \<^const>\<open>AList.delete\<close>. A field name shared by two dataclasses is prefixed in one
  of them (\<open>in_txid\<close>, \<open>in_vout\<close> of \<^verbatim>\<open>TxInput\<close>; \<open>blk_timestamp\<close> of
  \<^verbatim>\<open>Block\<close>).
\<close>

datatype exn =
    ValueError string
  | FromhexError
  | TypeError
  | KeyError
  | IndexError
  | AttributeError
  | BadSignatureError
  | EcdsaError

record TxInput =
  in_txid :: "string option"
  in_vout :: int
  signature :: "string option"
  pubkey :: "string option"

record TxOutput =
  amount :: int
  address :: string

record Transaction =
  inputs :: "TxInput list"
  outputs :: "TxOutput list"
  timestamp :: real
  txid :: "string option"
  coinbase :: bool

record Block =
  index :: int
  prev_hash :: "string option"
  blk_timestamp :: real
  nonce :: int
  txs :: "Transaction list"
  merkle_root :: "string option"
  hash :: "string option"

type_synonym UTXOKey = "string option \<times> int"

type_synonym utxo_map = "(UTXOKey \<times> TxOutput) list"

record Blockchain =
  chain :: "Block list"
  utxos :: utxo_map
  mempool :: "Transaction list"

text \<open>
  What \<^verbatim>\<open>to_dict\<close> builds and \<^verbatim>\<open>json.dump\<close> writes: JSON values, an object
  as the list of its entries in insertion order.
\<close>

datatype json =
    JNull
  | JBool bool
  | JInt int
  | JFloat real
  | JStr string
  | JList "json list"
  | JDict "(string \<times> json) list"

text \<open>
  The library functions and the constants of \<^verbatim>\<open>cypher/config.py\<close> (not in the
  sources) are parameters of every definition that uses them:
  \<^item> \<open>sha256d_hex\<close>: \<^verbatim>\<open>hashlib.sha256(hashlib.sha256(data).digest()).hexdigest()\<close>;
  \<^item> \<open>to_json\<close>: \<^verbatim>\<open>json.dumps(obj, sort_keys=True, separators=(",", ":"))\<close>
    followed by \<^verbatim>\<open>.encode()\<close>;
  \<^item> \<open>fromhex\<close>: \<^verbatim>\<open>bytes.fromhex\<close>, \<open>None\<close> where it raises;
  \<^item> \<open>hash160_hex\<close>: \<^verbatim>\<open>ripemd160(hashlib.sha256(b).digest()).hex()\<close>;
  \<^item> \<open>ecdsa_verify pk sg m\<close>: \<^verbatim>\<open>VerifyingKey.from_string(pk, curve=SECP256k1)\<close>
    followed by \<^verbatim>\<open>vk.verify(sg, m)\<close>, which returns \<^verbatim>\<open>True\<close> or raises:
    \<open>None\<close> where both succeed, \<open>Some e\<close> where one raises \<open>e\<close>;
  \<^item> \<open>derive_pub_hex priv\<close>: the public key
    \<^verbatim>\<open>SigningKey.from_string(bytes.fromhex(priv), curve=SECP256k1).get_verifying_key().to_string().hex()\<close>,
    \<open>None\<close> where building the key raises;
  \<^item> \<open>sign_hex priv m\<close>: \<^verbatim>\<open>sk.sign_deterministic(m).hex()\<close> for that key;
  \<^item> \<open>DIFFICULTY\<close>, \<open>BLOCK_REWARD\<close>, \<open>GENESIS_MESSAGE\<close>: the constants of the
    configuration.
\<close>

record env =
  sha256d_hex :: "string \<Rightarrow> string"
  to_json :: "json \<Rightarrow> string"
  fromhex :: "string \<Rightarrow> string option"
  hash160_hex :: "string \<Rightarrow> string"
  ecdsa_verify :: "string \<Rightarrow> string \<Rightarrow> string \<Rightarrow> exn option"
  derive_pub_hex :: "string \<Rightarrow> string option"
  sign_hex :: "string \<Rightarrow> string \<Rightarrow> string"
  DIFFICULTY :: int
  BLOCK_REWARD :: int
  GENESIS_MESSAGE :: string

section \<open>Commitment layer (\<^verbatim>\<open>utils.py\<close>)\<close>

text \<open>
  One step of the inner loop of \<^verbatim>\<open>merkle_root_hex\<close>:
  \<^verbatim>\<open>sha256d_hex(bytes.fromhex(left) + bytes.fromhex(right))\<close>. The elements are the
  transactions' \<^verbatim>\<open>txid\<close> fields, which may be \<^verbatim>\<open>None\<close>; \<^verbatim>\<open>bytes.fromhex(None)\<close>
  raises \<^verbatim>\<open>TypeError\<close>.
\<close>

definition hash_pair :: "env \<Rightarrow> string option \<Rightarrow> string option \<Rightarrow> exn + string option" where
  "hash_pair e left right =
     (case left of None \<Rightarrow> Inl TypeError
      | Some l \<Rightarrow>
        (case fromhex e l of None \<Rightarrow> Inl FromhexError
         | Some lb \<Rightarrow>
           (case right of None \<Rightarrow> Inl TypeError
            | Some r \<Rightarrow>
              (case fromhex e r of None \<Rightarrow> Inl FromhexError
               | Some rb \<Rightarrow> Inr (Some (sha256d_hex e (lb @ rb)))))))"

text \<open>\<^verbatim>\<open>range(0, n, 2)\<close>.\<close>

definition range2 :: "nat \<Rightarrow> nat list" where
  "range2 n = map (\<lambda>k. 2 * k) [0..<(n + 1) div 2]"

text \<open>
  The \<^verbatim>\<open>for i in range(0, len(level), 2)\<close> loop, reading \<^verbatim>\<open>level[i]\<close> and
  \<^verbatim>\<open>level[i+1] if i+1 < len(level) else left\<close>; the first exception ends it.
\<close>

fun next_level :: "env \<Rightarrow> string option list \<Rightarrow> nat list \<Rightarrow> exn + string option list" where
  "next_level e level [] = Inr []"
| "next_level e level (i # rest) =
     (let left = level ! i;
          right = (if i + 1 < length level then level ! (i + 1) else left)
      in case hash_pair e left right of Inl x \<Rightarrow> Inl x
         | Inr h \<Rightarrow>
           (case next_level e level rest of Inl x \<Rightarrow> Inl x
            | Inr hs \<Rightarrow> Inr (h # hs)))"

lemma next_level_length: "next_level e level is = Inr nxt \<Longrightarrow> length nxt = length is"
  by (induction "is" arbitrary: nxt) (auto simp: Let_def split: sum.splits)

text \<open>The \<^verbatim>\<open>while len(level) > 1\<close> loop and the final \<^verbatim>\<open>level[0]\<close>.\<close>

function merkle_loop :: "env \<Rightarrow> string option list \<Rightarrow> exn + string option" where
  "merkle_loop e level =
     (if length level > 1
      then (case next_level e level (range2 (length level)) of Inl x \<Rightarrow> Inl x
            | Inr nxt \<Rightarrow> merkle_loop e nxt)
      else (case level of [] \<Rightarrow> Inl IndexError | x # _ \<Rightarrow> Inr x))"
  by pat_completeness auto
termination
proof (relation "measure (\<lambda>(e, level). length level)")
  show "wf (measure (\<lambda>(e, level). length level))" by simp
next
  fix e :: env and level nxt
  assume "1 < length level" and "next_level e level (range2 (length level)) = Inr nxt"
  then have "length nxt = (length level + 1) div 2"
    using next_level_length [of e level "range2 (length level)" nxt] by (simp add: range2_def)
  with \<open>1 < length level\<close> show "((e, nxt), (e, level)) \<in> measure (\<lambda>(e, level). length level)"
    by simp
qed

declare merkle_loop.simps [simp del]

definition merkle_root_hex :: "env \<Rightarrow> string option list \<Rightarrow> exn + string option" where
  "merkle_root_hex e txids =
     (if txids = [] then Inr (Some (sha256d_hex e []))
      else merkle_loop e txids)"

section \<open>Transaction model (\<^verbatim>\<open>transaction.py\<close>)\<close>

definition opt_str :: "string option \<Rightarrow> json" where
  "opt_str s = (case s of None \<Rightarrow> JNull | Some x \<Rightarrow> JStr x)"

text \<open>Python truthiness of an \<^verbatim>\<open>Optional[str]\<close>: \<^verbatim>\<open>None\<close> and \<^verbatim>\<open>""\<close> are false.\<close>

definition truthy :: "string option \<Rightarrow> bool" where
  "truthy s = (case s of None \<Rightarrow> False | Some x \<Rightarrow> x \<noteq> [])"

text \<open>Python's \<^verbatim>\<open>x or y\<close> on an \<^verbatim>\<open>Optional[str]\<close> and a \<^verbatim>\<open>str\<close>.\<close>

definition or_else :: "string option \<Rightarrow> string \<Rightarrow> string" where
  "or_else x y = (case x of None \<Rightarrow> y | Some v \<Rightarrow> if v = [] then y else v)"

definition pubkey_to_address :: "env \<Rightarrow> string \<Rightarrow> exn + string" where
  "pubkey_to_address e pubkey_hex =
     (case fromhex e pubkey_hex of None \<Rightarrow> Inl FromhexError
      | Some pub_bytes \<Rightarrow> Inr (''CYPH'' @ hash160_hex e pub_bytes))"

definition input_to_dict :: "bool \<Rightarrow> TxInput \<Rightarrow> json" where
  "input_to_dict include_sig i =
     JDict ([(''txid'', opt_str (in_txid i)), (''vout'', JInt (in_vout i))] @
            (if include_sig
             then [(''signature'', opt_str (signature i)), (''pubkey'', opt_str (pubkey i))]
             else []))"

definition output_to_dict :: "TxOutput \<Rightarrow> json" where
  "output_to_dict out = JDict [(''amount'', JInt (amount out)), (''address'', JStr (address out))]"

definition tx_to_dict :: "bool \<Rightarrow> Transaction \<Rightarrow> json" where
  "tx_to_dict include_sig tx =
     JDict [(''inputs'', JList (map (input_to_dict include_sig) (inputs tx))),
            (''outputs'', JList (map output_to_dict (outputs tx))),
            (''timestamp'', JFloat (timestamp tx)),
            (''coinbase'', JBool (coinbase tx))]"

definition compute_txid :: "env \<Rightarrow> Transaction \<Rightarrow> string" where
  "compute_txid e tx = sha256d_hex e (to_json e (tx_to_dict False tx))"



text \<open>
  The \<^verbatim>\<open>for tin in self.inputs\<close> loop of \<^verbatim>\<open>verify\<close>, with the running
  \<^verbatim>\<open>total_in\<close>: \<open>Inr None\<close> is a \<^verbatim>\<open>return False\<close> inside the loop,
  \<open>Inr (Some total)\<close> the total when the loop ends, \<open>Inl x\<close> an exception.
  Both \<^verbatim>\<open>bytes.fromhex\<close> calls are made before \<open>ecdsa_verify\<close> stands for
  the two library calls; \<^verbatim>\<open>verify\<close> catches whichever exception comes first.
\<close>

fun verify_inputs :: "env \<Rightarrow> utxo_map \<Rightarrow> string \<Rightarrow> TxInput list \<Rightarrow> int \<Rightarrow> exn + int option" where
  "verify_inputs e utxo_map preimage [] total_in = Inr (Some total_in)"
| "verify_inputs e utxo_map preimage (tin # rest) total_in =
     (case map_of utxo_map (in_txid tin, in_vout tin) of None \<Rightarrow> Inr None
      | Some utxo \<Rightarrow>
        (if \<not> truthy (signature tin) \<or> \<not> truthy (pubkey tin) then Inr None
         else case (signature tin, pubkey tin) of
           (Some sg, Some pk) \<Rightarrow>
             (case fromhex e pk of None \<Rightarrow> Inl FromhexError
              | Some pk_bytes \<Rightarrow>
                (case fromhex e sg of None \<Rightarrow> Inl FromhexError
                 | Some sg_bytes \<Rightarrow>
                   (case ecdsa_verify e pk_bytes sg_bytes preimage of Some x \<Rightarrow> Inl x
                    | None \<Rightarrow>
                      (case pubkey_to_address e pk of Inl x \<Rightarrow> Inl x
                       | Inr a \<Rightarrow>
                           if a \<noteq> address utxo then Inr None
                           else verify_inputs e utxo_map preimage rest (total_in + amount utxo)))))
         | _ \<Rightarrow> Inr None))"

text \<open>The body of the \<^verbatim>\<open>try\<close> block of \<^verbatim>\<open>verify\<close>.\<close>

definition verify_try :: "env \<Rightarrow> Transaction \<Rightarrow> utxo_map \<Rightarrow> exn + bool" where
  "verify_try e tx utxo_map =
     (let preimage = to_json e (tx_to_dict False tx)
      in case verify_inputs e utxo_map preimage (inputs tx) 0 of Inl x \<Rightarrow> Inl x
         | Inr None \<Rightarrow> Inr False
         | Inr (Some total_in) \<Rightarrow>
             let total_out = sum_list (map amount (outputs tx))
             in if total_out > total_in then Inr False
                else Inr (Some (compute_txid e tx) = txid tx))"

text \<open>
  \<^verbatim>\<open>Transaction.verify\<close>: the outcome of a call, \<open>Inl\<close> if it raised. Both
  \<^verbatim>\<open>except\<close> clauses return \<^verbatim>\<open>False\<close>.
\<close>

definition verify :: "env \<Rightarrow> Transaction \<Rightarrow> utxo_map \<Rightarrow> exn + bool" where
  "verify e tx utxo_map =
     (if coinbase tx then Inr True
      else case verify_try e tx utxo_map of
             Inl BadSignatureError \<Rightarrow> Inr False
           | Inl _ \<Rightarrow> Inr False
           | Inr b \<Rightarrow> Inr b)"

text \<open>
  \<^verbatim>\<open>make_coinbase\<close>; \<open>now\<close> is the value of \<^verbatim>\<open>time.time()\<close> that the
  dataclass default takes.
\<close>

definition make_coinbase :: "env \<Rightarrow> string \<Rightarrow> int \<Rightarrow> real \<Rightarrow> Transaction" where
  "make_coinbase e to_address amt now =
     (let tx = \<lparr>inputs = [], outputs = [\<lparr>amount = amt, address = to_address\<rparr>],
                timestamp = now, txid = None, coinbase = True\<rparr>
      in tx\<lparr>txid := Some (compute_txid e tx)\<rparr>)"



section \<open>Block model (\<^verbatim>\<open>block.py\<close>)\<close>

definition compute_merkle :: "env \<Rightarrow> Block \<Rightarrow> exn + string option" where
  "compute_merkle e b = merkle_root_hex e (map txid (txs b))"

definition header_preimage :: "env \<Rightarrow> Block \<Rightarrow> string" where
  "header_preimage e b =
     to_json e (JDict [(''index'', JInt (index b)),
                       (''prev_hash'', opt_str (prev_hash b)),
                       (''timestamp'', JFloat (blk_timestamp b)),
                       (''nonce'', JInt (nonce b)),
                       (''merkle_root'', JStr (or_else (merkle_root b) []))])"

definition compute_hash :: "env \<Rightarrow> Block \<Rightarrow> string" where
  "compute_hash e b = sha256d_hex e (header_preimage e b)"

definition startswith :: "string \<Rightarrow> string \<Rightarrow> bool" where
  "startswith s p = (take (length p) s = p)"

text \<open>\<^verbatim>\<open>"0" * difficulty\<close>: empty for a difficulty below 1.\<close>

definition zeros :: "int \<Rightarrow> string" where
  "zeros d = replicate (nat d) CHR ''0''"

text \<open>
  The \<^verbatim>\<open>while True\<close> loop of \<^verbatim>\<open>mine_block\<close>. It has no bound: \<open>None\<close> is the
  search that never ends. \<open>clock n\<close> is what \<^verbatim>\<open>time.time()\<close> returns when the
  nonce reaches \<open>n\<close>.
\<close>

partial_function (option) mine_loop :: "env \<Rightarrow> string \<Rightarrow> (int \<Rightarrow> real) \<Rightarrow> Block \<Rightarrow> Block option" where
  "mine_loop e pfx clock b =
     (if startswith (compute_hash e b) pfx then Some (b\<lparr>hash := Some (compute_hash e b)\<rparr>)
      else mine_loop e pfx clock
             (if (nonce b + 1) mod 100000 = 0
              then b\<lparr>nonce := nonce b + 1, blk_timestamp := clock (nonce b + 1)\<rparr>
              else b\<lparr>nonce := nonce b + 1\<rparr>))"

declare mine_loop.simps [code]

definition mine_block :: "env \<Rightarrow> Block \<Rightarrow> int \<Rightarrow> (int \<Rightarrow> real) \<Rightarrow> (exn + Block) option" where
  "mine_block e b difficulty clock =
     (case compute_merkle e b of Inl x \<Rightarrow> Some (Inl x)
      | Inr m \<Rightarrow>
          map_option Inr (mine_loop e (zeros difficulty) clock (b\<lparr>merkle_root := m, nonce := 0\<rparr>)))"

section \<open>Ledger state machine (\<^verbatim>\<open>blockchain.py\<close>)\<close>

text \<open>
  The methods of \<^verbatim>\<open>Blockchain\<close> take the ledger (\<^verbatim>\<open>self\<close>) and return it
  updated. Every exception of these methods is raised before their first write to the
  ledger, so an outcome \<open>Inl x\<close> carries no state. The three files that
  \<^verbatim>\<open>_persist\<close> rewrites are a function of the ledger (\<open>persist\<close> below).
\<close>

definition latest_block :: "Blockchain \<Rightarrow> exn + Block" where
  "latest_block s = (case chain s of [] \<Rightarrow> Inl IndexError | _ # _ \<Rightarrow> Inr (last (chain s)))"

text \<open>\<^verbatim>\<open>for idx, o in enumerate(tx.outputs): d[(tx.txid, idx)] = o\<close>, from \<open>idx\<close> on.\<close>

fun add_outputs :: "string option \<Rightarrow> utxo_map \<Rightarrow> nat \<Rightarrow> TxOutput list \<Rightarrow> utxo_map" where
  "add_outputs t d idx [] = d"
| "add_outputs t d idx (out # rest) = add_outputs t (AList.update (t, int idx) out d) (Suc idx) rest"

text \<open>
  The input loop that \<^verbatim>\<open>apply_tx\<close> and \<^verbatim>\<open>validate_block\<close> both have:
  \<^verbatim>\<open>if ref not in d: return False\<close>, then \<^verbatim>\<open>del d[ref]\<close>. The dict comes back as
  the loop left it, also when it returned \<^verbatim>\<open>False\<close> halfway.
\<close>

fun spend_inputs :: "utxo_map \<Rightarrow> TxInput list \<Rightarrow> bool \<times> utxo_map" where
  "spend_inputs d [] = (True, d)"
| "spend_inputs d (i # rest) =
     (let ref = (in_txid i, in_vout i)
      in if map_of d ref = None then (False, d)
         else spend_inputs (AList.delete ref d) rest)"

text \<open>The input loop of \<^verbatim>\<open>mine\<close>: \<^verbatim>\<open>del utxo_temp[(i.txid, i.vout)]\<close>, unguarded.\<close>

fun del_inputs :: "utxo_map \<Rightarrow> TxInput list \<Rightarrow> exn + utxo_map" where
  "del_inputs d [] = Inr d"
| "del_inputs d (i # rest) =
     (let ref = (in_txid i, in_vout i)
      in if map_of d ref = None then Inl KeyError
         else del_inputs (AList.delete ref d) rest)"

definition add_transaction :: "env \<Rightarrow> Blockchain \<Rightarrow> Transaction \<Rightarrow> exn + (bool \<times> Blockchain)" where
  "add_transaction e s tx0 =
     (let tx = (if \<not> truthy (txid tx0) then tx0\<lparr>txid := Some (compute_txid e tx0)\<rparr> else tx0)
      in if coinbase tx then Inr (False, s)
         else case verify e tx (utxos s) of Inl x \<Rightarrow> Inl x
           | Inr ok \<Rightarrow>
               if \<not> ok then Inr (False, s)
               else if list_ex (\<lambda>t. txid t = txid tx) (mempool s) then Inr (False, s)
               else
                 let spent_in_mempool =
                       concat (map (\<lambda>t. map (\<lambda>i. (in_txid i, in_vout i)) (inputs t)) (mempool s))
                 in if list_ex (\<lambda>i. (in_txid i, in_vout i) \<in> set spent_in_mempool) (inputs tx)
                    then Inr (False, s)
                    else Inr (True, s\<lparr>mempool := mempool s @ [tx]\<rparr>))"

text \<open>\<^verbatim>\<open>apply_tx\<close> on the UTXO dict of the ledger.\<close>

definition apply_tx :: "env \<Rightarrow> utxo_map \<Rightarrow> Transaction \<Rightarrow> exn + (bool \<times> utxo_map)" where
  "apply_tx e d tx =
     (if coinbase tx then Inr (True, add_outputs (txid tx) d 0 (outputs tx))
      else case verify e tx d of Inl x \<Rightarrow> Inl x
        | Inr ok \<Rightarrow>
            if \<not> ok then Inr (False, d)
            else (case spend_inputs d (inputs tx) of
                    (False, d1) \<Rightarrow> Inr (False, d1)
                  | (True, d1) \<Rightarrow> Inr (True, add_outputs (txid tx) d1 0 (outputs tx))))"

text \<open>
  The replay loop of \<^verbatim>\<open>validate_block\<close> over \<^verbatim>\<open>utxo_copy\<close>: \<open>Inr None\<close> is a
  \<^verbatim>\<open>return False\<close>, \<open>Inr (Some d)\<close> the copy when the loop ends.
\<close>

fun validate_txs :: "env \<Rightarrow> utxo_map \<Rightarrow> Transaction list \<Rightarrow> exn + utxo_map option" where
  "validate_txs e d [] = Inr (Some d)"
| "validate_txs e d (tx # rest) =
     (case (if \<not> coinbase tx then verify e tx d else Inr True) of Inl x \<Rightarrow> Inl x
      | Inr ok \<Rightarrow>
          if \<not> coinbase tx \<and> \<not> ok then Inr None
          else if coinbase tx then validate_txs e (add_outputs (txid tx) d 0 (outputs tx)) rest
          else (case spend_inputs d (inputs tx) of
                  (False, d1) \<Rightarrow> Inr None
                | (True, d1) \<Rightarrow> validate_txs e (add_outputs (txid tx) d1 0 (outputs tx)) rest))"

text \<open>
  \<^verbatim>\<open>validate_block\<close> as a function of the value of \<^verbatim>\<open>self.utxos\<close>, the only part
  of the ledger it reads. \<open>validate_block_h\<close> below is the same method on a store of
  dict objects, where the copy is an object of its own.
\<close>

definition validate_block :: "env \<Rightarrow> utxo_map \<Rightarrow> Block \<Rightarrow> Block \<Rightarrow> exn + bool" where
  "validate_block e d block prev =
     (if prev_hash block \<noteq> hash prev then Inr False
      else if \<not> truthy (hash block) \<or> \<not> startswith (or_else (hash block) []) (zeros (DIFFICULTY e))
        then Inr False
      else if Some (compute_hash e block) \<noteq> hash block then Inr False
      else case compute_merkle e block of Inl x \<Rightarrow> Inl x
        | Inr m \<Rightarrow>
            if m \<noteq> merkle_root block then Inr False
            else if txs block = [] \<or> \<not> coinbase (hd (txs block)) then Inr False
            else if sum_list (map amount (outputs (hd (txs block)))) \<noteq> BLOCK_REWARD e
              then Inr False
            else (case validate_txs e d (txs block) of Inl x \<Rightarrow> Inl x
                  | Inr None \<Rightarrow> Inr False
                  | Inr (Some _) \<Rightarrow> Inr True))"

text \<open>
  The commit loop of \<^verbatim>\<open>mine\<close> and \<^verbatim>\<open>try_add_block\<close>:
  \<^verbatim>\<open>self.apply_tx(tx)\<close>, its result dropped, then the mempool without the
  transactions of that txid.
\<close>

fun commit_txs :: "env \<Rightarrow> Blockchain \<Rightarrow> Transaction list \<Rightarrow> exn + Blockchain" where
  "commit_txs e s [] = Inr s"
| "commit_txs e s (tx # rest) =
     (case apply_tx e (utxos s) tx of Inl x \<Rightarrow> Inl x
      | Inr (ok, d1) \<Rightarrow>
          commit_txs e (s\<lparr>utxos := d1, mempool := filter (\<lambda>t. txid t \<noteq> txid tx) (mempool s)\<rparr>) rest)"

text \<open>The selection loop of \<^verbatim>\<open>mine\<close> over \<^verbatim>\<open>utxo_temp\<close>.\<close>

fun select_txs :: "env \<Rightarrow> utxo_map \<Rightarrow> Transaction list \<Rightarrow> Transaction list \<Rightarrow> exn + Transaction list" where
  "select_txs e d [] selected = Inr selected"
| "select_txs e d (tx # rest) selected =
     (case verify e tx d of Inl x \<Rightarrow> Inl x
      | Inr ok \<Rightarrow>
          if ok
          then (case del_inputs d (inputs tx) of Inl x \<Rightarrow> Inl x
                | Inr d1 \<Rightarrow>
                    select_txs e (add_outputs (txid tx) d1 0 (outputs tx)) rest (selected @ [tx]))
          else select_txs e d rest selected)"

text \<open>
  \<^verbatim>\<open>mine\<close>. \<open>now_tx\<close> and \<open>now_blk\<close> are the two readings of
  \<^verbatim>\<open>time.time()\<close> (coinbase, block); the outer \<open>None\<close> is a proof-of-work search
  that never ends, \<open>Inr (None, s)\<close> the \<^verbatim>\<open>return None\<close>.
\<close>

definition mine ::
  "env \<Rightarrow> Blockchain \<Rightarrow> string \<Rightarrow> real \<Rightarrow> real \<Rightarrow> (int \<Rightarrow> real) \<Rightarrow> (exn + (Block option \<times> Blockchain)) option" where
  "mine e s miner_address now_tx now_blk clock =
     (let cb = make_coinbase e miner_address (BLOCK_REWARD e) now_tx
      in case select_txs e (utxos s) (mempool s) [cb] of Inl x \<Rightarrow> Some (Inl x)
        | Inr selected \<Rightarrow>
          (case latest_block s of Inl x \<Rightarrow> Some (Inl x)
           | Inr tip \<Rightarrow>
             (case mine_block e \<lparr>index = int (length (chain s)), prev_hash = hash tip,
                                 blk_timestamp = now_blk, nonce = 0, txs = selected,
                                 merkle_root = None, hash = None\<rparr> (DIFFICULTY e) clock of
                None \<Rightarrow> None
              | Some (Inl x) \<Rightarrow> Some (Inl x)
              | Some (Inr mined) \<Rightarrow>
                (case validate_block e (utxos s) mined tip of Inl x \<Rightarrow> Some (Inl x)
                 | Inr ok \<Rightarrow>
                     if ok
                     then (case commit_txs e s selected of Inl x \<Rightarrow> Some (Inl x)
                           | Inr s1 \<Rightarrow> Some (Inr (Some mined, s1\<lparr>chain := chain s1 @ [mined]\<rparr>)))
                     else Some (Inr (None, s))))))"

definition try_add_block :: "env \<Rightarrow> Blockchain \<Rightarrow> Block \<Rightarrow> exn + (bool \<times> Blockchain)" where
  "try_add_block e s block =
     (if index block \<noteq> int (length (chain s)) then Inr (False, s)
      else case latest_block s of Inl x \<Rightarrow> Inl x
        | Inr tip \<Rightarrow>
          (case validate_block e (utxos s) block tip of Inl x \<Rightarrow> Inl x
           | Inr ok \<Rightarrow>
               if \<not> ok then Inr (False, s)
               else (case commit_txs e s (txs block) of Inl x \<Rightarrow> Inl x
                     | Inr s1 \<Rightarrow> Inr (True, s1\<lparr>chain := chain s1 @ [block]\<rparr>))))"

text \<open>The coinbase transaction that \<^verbatim>\<open>_init_genesis\<close> builds.\<close>

definition genesis_tx :: "env \<Rightarrow> real \<Rightarrow> Transaction" where
  "genesis_tx e now =
     (let tx = \<lparr>inputs = [], outputs = [], timestamp = now, txid = None, coinbase = True\<rparr>
      in tx\<lparr>txid := Some (compute_txid e tx)\<rparr>)"

definition init_genesis :: "env \<Rightarrow> real \<Rightarrow> real \<Rightarrow> (int \<Rightarrow> real) \<Rightarrow> (exn + Blockchain) option" where
  "init_genesis e now_tx now_blk clock =
     (case mine_block e \<lparr>index = 0, prev_hash = Some (GENESIS_MESSAGE e),
                         blk_timestamp = now_blk, nonce = 0, txs = [genesis_tx e now_tx],
                         merkle_root = None, hash = None\<rparr> (DIFFICULTY e) clock of
        None \<Rightarrow> None
      | Some (Inl x) \<Rightarrow> Some (Inl x)
      | Some (Inr genesis) \<Rightarrow> Some (Inr \<lparr>chain = [genesis], utxos = [], mempool = []\<rparr>))"

definition balance :: "Blockchain \<Rightarrow> string \<Rightarrow> int" where
  "balance s addr = sum_list (map (\<lambda>(k, out). amount out) (filter (\<lambda>(k, out). address out = addr) (utxos s)))"

section \<open>\<^verbatim>\<open>validate_block\<close> on a store of dict objects\<close>

text \<open>
  Whether \<^verbatim>\<open>validate_block\<close> changes the ledger depends on which dict object its
  replay loop writes to. Here the dict objects live in a store, a list indexed by
  address; \<^verbatim>\<open>self.utxos\<close> holds an address; \<^verbatim>\<open>dict(self.utxos)\<close> allocates a new
  object with the same entries; and every \<^verbatim>\<open>utxo_copy[k] = o\<close> and
  \<^verbatim>\<open>del utxo_copy[ref]\<close> is a write to the store at the address that
  \<^verbatim>\<open>utxo_copy\<close> holds. The method assigns no field of \<^verbatim>\<open>self\<close>, of the blocks or
  of the transactions, which stay values.
\<close>

type_synonym store = "utxo_map list"

record Blockchain_obj =
  obj_chain :: "Block list"
  obj_utxos :: nat
  obj_mempool :: "Transaction list"

text \<open>\<^verbatim>\<open>dict(d)\<close>: the address of the new object, and the store with it.\<close>

definition dict_copy :: "store \<Rightarrow> nat \<Rightarrow> nat \<times> store" where
  "dict_copy st a = (length st, st @ [st ! a])"

fun add_outputs_h :: "string option \<Rightarrow> store \<Rightarrow> nat \<Rightarrow> nat \<Rightarrow> TxOutput list \<Rightarrow> store" where
  "add_outputs_h t st a idx [] = st"
| "add_outputs_h t st a idx (out # rest) =
     add_outputs_h t (st[a := AList.update (t, int idx) out (st ! a)]) a (Suc idx) rest"

fun spend_inputs_h :: "store \<Rightarrow> nat \<Rightarrow> TxInput list \<Rightarrow> bool \<times> store" where
  "spend_inputs_h st a [] = (True, st)"
| "spend_inputs_h st a (i # rest) =
     (let ref = (in_txid i, in_vout i)
      in if map_of (st ! a) ref = None then (False, st)
         else spend_inputs_h (st[a := AList.delete ref (st ! a)]) a rest)"

fun validate_txs_h :: "env \<Rightarrow> store \<Rightarrow> nat \<Rightarrow> Transaction list \<Rightarrow> (exn + bool) \<times> store" where
  "validate_txs_h e st c [] = (Inr True, st)"
| "validate_txs_h e st c (tx # rest) =
     (case (if \<not> coinbase tx then verify e tx (st ! c) else Inr True) of Inl x \<Rightarrow> (Inl x, st)
      | Inr ok \<Rightarrow>
          if \<not> coinbase tx \<and> \<not> ok then (Inr False, st)
          else if coinbase tx
            then validate_txs_h e (add_outputs_h (txid tx) st c 0 (outputs tx)) c rest
          else (case spend_inputs_h st c (inputs tx) of
                  (False, st1) \<Rightarrow> (Inr False, st1)
                | (True, st1) \<Rightarrow>
                    validate_txs_h e (add_outputs_h (txid tx) st1 c 0 (outputs tx)) c rest))"

definition validate_block_h ::
  "env \<Rightarrow> Blockchain_obj \<Rightarrow> store \<Rightarrow> Block \<Rightarrow> Block \<Rightarrow> (exn + bool) \<times> Blockchain_obj \<times> store" where
  "validate_block_h e self st block prev =
     (if prev_hash block \<noteq> hash prev then (Inr False, self, st)
      else if \<not> truthy (hash block) \<or> \<not> startswith (or_else (hash block) []) (zeros (DIFFICULTY e))
        then (Inr False, self, st)
      else if Some (compute_hash e block) \<noteq> hash block then (Inr False, self, st)
      else case compute_merkle e block of Inl x \<Rightarrow> (Inl x, self, st)
        | Inr m \<Rightarrow>
            if m \<noteq> merkle_root block then (Inr False, self, st)
            else if txs block = [] \<or> \<not> coinbase (hd (txs block)) then (Inr False, self, st)
            else if sum_list (map amount (outputs (hd (txs block)))) \<noteq> BLOCK_REWARD e
              then (Inr False, self, st)
            else (case dict_copy st (obj_utxos self) of
                    (utxo_copy, st1) \<Rightarrow>
                      (case validate_txs_h e st1 utxo_copy (txs block) of
                         (r, st2) \<Rightarrow> (r, self, st2))))"

section \<open>Persistence (\<^verbatim>\<open>_persist\<close> and \<^verbatim>\<open>_load\<close>)\<close>

text \<open>
  The three documents are JSON values: what \<^verbatim>\<open>json.dump\<close> is given and, read back,
  what \<^verbatim>\<open>json.load\<close> returns. The mempool document is optional on loading, as the
  file may be missing.
\<close>

text \<open>\<^verbatim>\<open>str(n)\<close> of a Python \<^verbatim>\<open>int\<close>, as \<^verbatim>\<open>f"{vout}"\<close> formats it.\<close>

definition digit_char :: "int \<Rightarrow> char" where
  "digit_char d = char_of (48 + d)"

function str_digits :: "int \<Rightarrow> string" where
  "str_digits n = (if n < 10 then [digit_char n] else str_digits (n div 10) @ [digit_char (n mod 10)])"
  by pat_completeness auto
termination
  by (relation "measure nat") auto

declare str_digits.simps [simp del]

definition str_int :: "int \<Rightarrow> string" where
  "str_int i = (if i < 0 then CHR ''-'' # str_digits (- i) else str_digits i)"

text \<open>\<^verbatim>\<open>f"{txid}:{vout}"\<close>; \<^verbatim>\<open>None\<close> is printed as \<open>None\<close>.\<close>

definition str_opt :: "string option \<Rightarrow> string" where
  "str_opt s = (case s of None \<Rightarrow> ''None'' | Some x \<Rightarrow> x)"

definition fmt_key :: "UTXOKey \<Rightarrow> string" where
  "fmt_key k = str_opt (fst k) @ '':'' @ str_int (snd k)"

text \<open>\<^verbatim>\<open>t.to_dict(include_sig=True) | {"txid": t.txid}\<close>.\<close>

definition tx_doc :: "Transaction \<Rightarrow> json" where
  "tx_doc t =
     (case tx_to_dict True t of
        JDict d \<Rightarrow> JDict (AList.update ''txid'' (opt_str (txid t)) d)
      | j \<Rightarrow> j)"

definition block_doc :: "Block \<Rightarrow> json" where
  "block_doc b =
     JDict [(''index'', JInt (index b)),
            (''prev_hash'', opt_str (prev_hash b)),
            (''timestamp'', JFloat (blk_timestamp b)),
            (''nonce'', JInt (nonce b)),
            (''txs'', JList (map tx_doc (txs b))),
            (''merkle_root'', opt_str (merkle_root b)),
            (''hash'', opt_str (hash b))]"

text \<open>The dict comprehension of \<^verbatim>\<open>raw_utxos\<close>: a key that is formatted twice is written once.\<close>

definition utxo_doc :: "utxo_map \<Rightarrow> json" where
  "utxo_doc d =
     JDict (foldl (\<lambda>acc (k, out). AList.update (fmt_key k) (output_to_dict out) acc) [] d)"

definition persist :: "Blockchain \<Rightarrow> json \<times> json \<times> json option" where
  "persist s =
     (JDict [(''chain'', JList (map block_doc (chain s)))],
      utxo_doc (utxos s),
      Some (JList (map tx_doc (mempool s))))"

text \<open>\<^verbatim>\<open>k.split(":")\<close>.\<close>

fun split_colon :: "string \<Rightarrow> string list" where
  "split_colon [] = [[]]"
| "split_colon (c # cs) =
     (if c = CHR '':'' then [] # split_colon cs
      else (case split_colon cs of [] \<Rightarrow> [[c]] | p # ps \<Rightarrow> (c # p) # ps))"

text \<open>
  \<^verbatim>\<open>int(s)\<close> on a string: surrounding whitespace is dropped, a sign may come first,
  and the rest is decimal digits, single underscores allowed between two digits;
  anything else raises \<^verbatim>\<open>ValueError\<close>. (Characters are bytes here: the whitespace
  and digits of Unicode beyond ASCII are not recognised.)
\<close>

definition is_space :: "char \<Rightarrow> bool" where
  "is_space c = (c \<in> set [CHR 0x09, CHR 0x0A, CHR 0x0B, CHR 0x0C, CHR 0x0D,
                           CHR 0x1C, CHR 0x1D, CHR 0x1E, CHR 0x1F, CHR 0x20])"

definition strip :: "string \<Rightarrow> string" where
  "strip s = rev (dropWhile is_space (rev (dropWhile is_space s)))"

definition is_digit :: "char \<Rightarrow> bool" where
  "is_digit c = (48 \<le> (of_char c :: int) \<and> (of_char c :: int) \<le> 57)"

fun parse_digits :: "int \<Rightarrow> bool \<Rightarrow> string \<Rightarrow> int option" where
  "parse_digits acc after_digit [] = (if after_digit then Some acc else None)"
| "parse_digits acc after_digit (c # cs) =
     (if is_digit c then parse_digits (acc * 10 + (of_char c - 48)) True cs
      else if c = CHR ''_'' \<and> after_digit \<and> cs \<noteq> [] \<and> is_digit (hd cs)
        then parse_digits acc False cs
      else None)"

definition py_int :: "string \<Rightarrow> exn + int" where
  "py_int s =
     (let r = (case strip s of
                 [] \<Rightarrow> None
               | c # cs \<Rightarrow>
                   if c = CHR ''-'' then map_option uminus (parse_digits 0 False cs)
                   else if c = CHR ''+'' then parse_digits 0 False cs
                   else parse_digits 0 False (c # cs))
      in case r of None \<Rightarrow> Inl (ValueError ''invalid literal for int() with base 10'')
         | Some i \<Rightarrow> Inr i)"

text \<open>
  Reading the documents. \<^verbatim>\<open>d[k]\<close> raises \<^verbatim>\<open>KeyError\<close> on a missing key. Python
  stores whatever JSON value it finds in a field; the records here are typed, so a value
  of another JSON type than the field's is \<^verbatim>\<open>TypeError\<close> in the model (the documents
  that \<open>persist\<close> writes have none).
\<close>

definition getitem :: "json \<Rightarrow> string \<Rightarrow> exn + json" where
  "getitem j k =
     (case j of
        JDict d \<Rightarrow> (case map_of d k of None \<Rightarrow> Inl KeyError | Some v \<Rightarrow> Inr v)
      | _ \<Rightarrow> Inl TypeError)"

definition as_int :: "json \<Rightarrow> exn + int" where
  "as_int j = (case j of JInt i \<Rightarrow> Inr i | _ \<Rightarrow> Inl TypeError)"

definition as_float :: "json \<Rightarrow> exn + real" where
  "as_float j = (case j of JFloat r \<Rightarrow> Inr r | JInt i \<Rightarrow> Inr (of_int i) | _ \<Rightarrow> Inl TypeError)"

definition as_bool :: "json \<Rightarrow> exn + bool" where
  "as_bool j = (case j of JBool b \<Rightarrow> Inr b | _ \<Rightarrow> Inl TypeError)"

definition as_str :: "json \<Rightarrow> exn + string" where
  "as_str j = (case j of JStr s \<Rightarrow> Inr s | _ \<Rightarrow> Inl TypeError)"

definition as_opt_str :: "json \<Rightarrow> exn + string option" where
  "as_opt_str j = (case j of JNull \<Rightarrow> Inr None | JStr s \<Rightarrow> Inr (Some s) | _ \<Rightarrow> Inl TypeError)"

definition as_list :: "json \<Rightarrow> exn + json list" where
  "as_list j = (case j of JList js \<Rightarrow> Inr js | _ \<Rightarrow> Inl TypeError)"

text \<open>Sequencing of steps that may raise, and a list comprehension over such a step.\<close>

definition bind :: "exn + 'a \<Rightarrow> ('a \<Rightarrow> exn + 'b) \<Rightarrow> exn + 'b" where
  "bind m f = (case m of Inl x \<Rightarrow> Inl x | Inr v \<Rightarrow> f v)"

fun map_exn :: "('a \<Rightarrow> exn + 'b) \<Rightarrow> 'a list \<Rightarrow> exn + 'b list" where
  "map_exn f [] = Inr []"
| "map_exn f (x # xs) = bind (f x) (\<lambda>y. bind (map_exn f xs) (\<lambda>ys. Inr (y # ys)))"

text \<open>
  \<^verbatim>\<open>type("TxInput", (), i)\<close> makes a class whose attributes are the entries of the
  document's object; the model keeps the four attributes that the ledger reads, and a
  missing one, which Python reports at its first use, is \<^verbatim>\<open>AttributeError\<close> here.
  \<^verbatim>\<open>TxOutput(**o)\<close> raises \<^verbatim>\<open>TypeError\<close> unless the keys are exactly the two fields.
\<close>

definition load_input :: "json \<Rightarrow> exn + TxInput" where
  "load_input i =
     (case i of
        JDict d \<Rightarrow>
          (case (map_of d ''txid'', map_of d ''vout'', map_of d ''signature'', map_of d ''pubkey'') of
             (Some t, Some v, Some sg, Some pk) \<Rightarrow>
               bind (as_opt_str t) (\<lambda>t'. bind (as_int v) (\<lambda>v'. bind (as_opt_str sg) (\<lambda>sg'.
               bind (as_opt_str pk) (\<lambda>pk'.
                 Inr \<lparr>in_txid = t', in_vout = v', signature = sg', pubkey = pk'\<rparr>))))
           | _ \<Rightarrow> Inl AttributeError)
      | _ \<Rightarrow> Inl TypeError)"

definition load_output :: "json \<Rightarrow> exn + TxOutput" where
  "load_output out =
     (case out of
        JDict d \<Rightarrow>
          (if set (map fst d) = {''amount'', ''address''}
           then bind (bind (getitem out ''amount'') as_int) (\<lambda>a.
                bind (bind (getitem out ''address'') as_str) (\<lambda>ad.
                  Inr \<lparr>amount = a, address = ad\<rparr>))
           else Inl TypeError)
      | _ \<Rightarrow> Inl TypeError)"

definition load_tx :: "json \<Rightarrow> exn + Transaction" where
  "load_tx t =
     bind (bind (bind (getitem t ''inputs'') as_list) (map_exn load_input)) (\<lambda>ins.
     bind (bind (bind (getitem t ''outputs'') as_list) (map_exn load_output)) (\<lambda>outs.
     bind (bind (getitem t ''timestamp'') as_float) (\<lambda>ts.
     bind (case getitem t ''coinbase'' of Inl x \<Rightarrow> Inr False | Inr c \<Rightarrow> as_bool c) (\<lambda>cb.
     bind (case getitem t ''txid'' of Inl x \<Rightarrow> Inr None | Inr i \<Rightarrow> as_opt_str i) (\<lambda>tid.
       Inr \<lparr>inputs = ins, outputs = outs, timestamp = ts, txid = tid, coinbase = cb\<rparr>)))))"

definition load_block :: "json \<Rightarrow> exn + Block" where
  "load_block b =
     bind (bind (bind (getitem b ''txs'') as_list) (map_exn load_tx)) (\<lambda>ts.
     bind (bind (getitem b ''index'') as_int) (\<lambda>i.
     bind (bind (getitem b ''prev_hash'') as_opt_str) (\<lambda>ph.
     bind (bind (getitem b ''timestamp'') as_float) (\<lambda>t.
     bind (bind (getitem b ''nonce'') as_int) (\<lambda>n.
     bind (bind (getitem b ''merkle_root'') as_opt_str) (\<lambda>m.
     bind (bind (getitem b ''hash'') as_opt_str) (\<lambda>h.
       Inr \<lparr>index = i, prev_hash = ph, blk_timestamp = t, nonce = n, txs = ts,
            merkle_root = m, hash = h\<rparr>)))))))"

text \<open>\<^verbatim>\<open>(k.split(":")[0], int(k.split(":")[1]))\<close>.\<close>

definition load_key :: "string \<Rightarrow> exn + UTXOKey" where
  "load_key k =
     (case split_colon k of
        t # v # _ \<Rightarrow> bind (py_int v) (\<lambda>i. Inr (Some t, i))
      | _ \<Rightarrow> Inl IndexError)"

text \<open>The dict comprehension of \<^verbatim>\<open>self.utxos\<close> over the entries of the UTXO document.\<close>

fun load_utxos :: "(string \<times> json) list \<Rightarrow> utxo_map \<Rightarrow> exn + utxo_map" where
  "load_utxos [] acc = Inr acc"
| "load_utxos ((k, v) # rest) acc =
     bind (load_key k) (\<lambda>key. bind (load_output v) (\<lambda>out.
       load_utxos rest (AList.update key out acc)))"

definition load :: "json \<times> json \<times> json option \<Rightarrow> exn + Blockchain" where
  "load docs =
     (case docs of (chain_json, utxo_json, mempool_json) \<Rightarrow>
        bind (bind (bind (getitem chain_json ''chain'') as_list) (map_exn load_block)) (\<lambda>c.
        bind (case utxo_json of JDict d \<Rightarrow> load_utxos d [] | _ \<Rightarrow> Inl TypeError) (\<lambda>u.
        bind (case mempool_json of None \<Rightarrow> Inr []
              | Some m \<Rightarrow> bind (as_list m) (map_exn load_tx)) (\<lambda>mp.
          Inr \<lparr>chain = c, utxos = u, mempool = mp\<rparr>))))"

section \<open>Specification-level definitions\<close>



text \<open>
  The checks of \<^verbatim>\<open>verify\<close> in the words of the specification: the stored signature
  validates over the preimage with the stored public key; an input passes when its
  reference is in the UTXO set, it has a signature and a public key, the signature
  validates and the address derived from the public key is the address of the referenced
  UTXO; the input total counts the referenced amount once for each input.
\<close>

definition signature_valid :: "env \<Rightarrow> string \<Rightarrow> string \<Rightarrow> string \<Rightarrow> bool" where
  "signature_valid e pk sg preimage =
     (case fromhex e pk of None \<Rightarrow> False
      | Some pk_bytes \<Rightarrow>
        (case fromhex e sg of None \<Rightarrow> False
         | Some sg_bytes \<Rightarrow> ecdsa_verify e pk_bytes sg_bytes preimage = None))"

definition input_ok :: "env \<Rightarrow> utxo_map \<Rightarrow> string \<Rightarrow> TxInput \<Rightarrow> bool" where
  "input_ok e utxo_map preimage tin =
     (case map_of utxo_map (in_txid tin, in_vout tin) of None \<Rightarrow> False
      | Some utxo \<Rightarrow>
        (case signature tin of None \<Rightarrow> False
         | Some sg \<Rightarrow>
           (case pubkey tin of None \<Rightarrow> False
            | Some pk \<Rightarrow>
                sg \<noteq> [] \<and> pk \<noteq> [] \<and> signature_valid e pk sg preimage \<and>
                pubkey_to_address e pk = Inr (address utxo))))"

definition input_amount :: "utxo_map \<Rightarrow> TxInput \<Rightarrow> int" where
  "input_amount utxo_map tin =
     (case map_of utxo_map (in_txid tin, in_vout tin) of None \<Rightarrow> 0 | Some utxo \<Rightarrow> amount utxo)"

text \<open>Every input passes, the outputs do not exceed the inputs, and the txid is the recomputed one.\<close>

definition verify_checks :: "env \<Rightarrow> Transaction \<Rightarrow> utxo_map \<Rightarrow> bool" where
  "verify_checks e tx utxo_map =
     (list_all (input_ok e utxo_map (to_json e (tx_to_dict False tx))) (inputs tx) \<and>
      sum_list (map amount (outputs tx)) \<le> sum_list (map (input_amount utxo_map) (inputs tx)) \<and>
      Some (compute_txid e tx) = txid tx)"

text \<open>
  Admission in the words of the specification. The transaction as
  \<^verbatim>\<open>add_transaction\<close> leaves it: the txid assigned if it was absent.
\<close>

definition assign_txid :: "env \<Rightarrow> Transaction \<Rightarrow> Transaction" where
  "assign_txid e tx = (if \<not> truthy (txid tx) then tx\<lparr>txid := Some (compute_txid e tx)\<rparr> else tx)"

text \<open>The references of the inputs of the pending transactions.\<close>

definition pending_refs :: "Blockchain \<Rightarrow> UTXOKey list" where
  "pending_refs s = concat (map (\<lambda>t. map (\<lambda>i. (in_txid i, in_vout i)) (inputs t)) (mempool s))"

text \<open>
  Not a coinbase, verifies against the current UTXO set, no pending transaction has its
  txid, and no pending transaction has one of its input references.
\<close>

definition admissible :: "env \<Rightarrow> Blockchain \<Rightarrow> Transaction \<Rightarrow> bool" where
  "admissible e s tx =
     (\<not> coinbase tx \<and> verify e tx (utxos s) = Inr True \<and>
      \<not> list_ex (\<lambda>t. txid t = txid tx) (mempool s) \<and>
      \<not> list_ex (\<lambda>i. (in_txid i, in_vout i) \<in> set (pending_refs s)) (inputs tx))"

text \<open>
  Block replay in the words of the specification. The references of a transaction's
  inputs; their presence in the evolving copy, each one deleted once it is found; the
  effect of a transaction on the copy; and the replay of a list of transactions: every
  non-coinbase transaction verifies against the copy as the transactions before it left
  it, and its references are present.
\<close>

definition refs :: "Transaction \<Rightarrow> UTXOKey list" where
  "refs tx = map (\<lambda>i. (in_txid i, in_vout i)) (inputs tx)"

fun refs_present :: "utxo_map \<Rightarrow> UTXOKey list \<Rightarrow> bool" where
  "refs_present d [] = True"
| "refs_present d (r # rs) = (map_of d r \<noteq> None \<and> refs_present (AList.delete r d) rs)"

definition tx_effect :: "utxo_map \<Rightarrow> Transaction \<Rightarrow> utxo_map" where
  "tx_effect d tx =
     add_outputs (txid tx) (if coinbase tx then d else fold AList.delete (refs tx) d) 0 (outputs tx)"

fun replay_ok :: "env \<Rightarrow> utxo_map \<Rightarrow> Transaction list \<Rightarrow> bool" where
  "replay_ok e d [] = True"
| "replay_ok e d (tx # rest) =
     ((coinbase tx \<or> (verify e tx d = Inr True \<and> refs_present d (refs tx))) \<and>
      replay_ok e (tx_effect d tx) rest)"


text \<open>What \<^verbatim>\<open>validate_block\<close> returns for an outcome of its replay loop.\<close>

definition outcome :: "exn + utxo_map option \<Rightarrow> exn + bool" where
  "outcome r = (case r of Inl x \<Rightarrow> Inl x | Inr None \<Rightarrow> Inr False | Inr (Some d) \<Rightarrow> Inr True)"

text \<open>
  Coin selection in the words of the specification: the total amount of a list of UTXO
  entries, the entries of the UTXO set that an address owns, in iteration order, and the
  unsigned input that names an entry.
\<close>

definition total_amount :: "(UTXOKey \<times> TxOutput) list \<Rightarrow> int" where
  "total_amount xs = sum_list (map (\<lambda>(k, out). amount out) xs)"



text \<open>The number that a string of decimal digits denotes, from an accumulator on.\<close>

definition digits_value :: "int \<Rightarrow> string \<Rightarrow> int" where
  "digits_value acc ds = foldl (\<lambda>a c. a * 10 + (of_char c - 48)) acc ds"

text \<open>A UTXO key whose txid is a string without a colon.\<close>

definition good_key :: "UTXOKey \<Rightarrow> bool" where
  "good_key k = (case fst k of None \<Rightarrow> False | Some t \<Rightarrow> CHR '':'' \<notin> set t)"

section \<open>A small environment for concrete runs\<close>

text \<open>
  Stand-ins for the library, small enough to run: the hash of a byte string is
  \<open>00\<close> followed by the sum of its character codes, a number is printed as its
  integer part, a signature is the public key followed by the
  length of the message, the public key is the private key, and every string without a \<open>z\<close> is
  hexadecimal and decodes to itself.
\<close>

fun toy_json :: "json \<Rightarrow> string" where
  "toy_json JNull = ''null''"
| "toy_json (JBool b) = (if b then ''true'' else ''false'')"
| "toy_json (JInt i) = str_int i"
| "toy_json (JFloat r) = str_int \<lfloor>r\<rfloor>"
| "toy_json (JStr s) = s"
| "toy_json (JList js) = ''['' @ concat (map toy_json js) @ '']''"
| "toy_json (JDict kvs) = ''{'' @ concat (map (\<lambda>(k, v). k @ '':'' @ toy_json v) kvs) @ ''}''"

definition toy_env :: env where
  "toy_env = \<lparr>sha256d_hex = (\<lambda>s. ''00'' @ str_int (sum_list (map of_char s))),
              to_json = toy_json,
              fromhex = (\<lambda>s. if CHR ''z'' \<in> set s then None else Some s),
              hash160_hex = (\<lambda>b. b),
              ecdsa_verify =
                (\<lambda>pk sg m. if sg = pk @ ''/'' @ str_int (int (length m)) then None
                            else Some BadSignatureError),
              derive_pub_hex = (\<lambda>priv. Some priv),
              sign_hex = (\<lambda>priv m. priv @ ''/'' @ str_int (int (length m))),
              DIFFICULTY = 2, BLOCK_REWARD = 50, GENESIS_MESSAGE = ''genesis''\<rparr>"

text \<open>A UTXO set with one output of 50 owned by the key \<open>k1\<close>, and a signed transfer of 30 with 20 of change.\<close>

definition ex_utxos :: utxo_map where
  "ex_utxos = [((Some ''t0'', 0), \<lparr>amount = 50, address = ''CYPHk1''\<rparr>)]"

definition ex_tx :: Transaction where
  "ex_tx = \<lparr>inputs = [\<lparr>in_txid = Some ''t0'', in_vout = 0,
                        signature = Some ''k1/111'', pubkey = Some ''k1''\<rparr>],
            outputs = [\<lparr>amount = 30, address = ''CYPHk2''\<rparr>, \<lparr>amount = 20, address = ''CYPHk1''\<rparr>],
            timestamp = 1, txid = Some ''0010852'', coinbase = False\<rparr>"



text \<open>
  A run of the ledger in the small environment: the genesis block, a block mined to
  \<open>k1\<close>, a transfer of 30 from \<open>k1\<close> to \<open>k2\<close> with 20 of change, and the
  block that a miner \<open>k3\<close> mines with it.
\<close>

definition ex_clock :: "int \<Rightarrow> real" where
  "ex_clock n = 0"

definition ex_genesis :: Block where
  "ex_genesis = \<lparr>index = 0, prev_hash = Some ''genesis'', blk_timestamp = 0, nonce = 0,
      txs = [\<lparr>inputs = [], outputs = [], timestamp = 0, txid = Some ''004639'', coinbase = True\<rparr>],
      merkle_root = Some ''004639'', hash = Some ''005936''\<rparr>"

definition ex_block1 :: Block where
  "ex_block1 = \<lparr>index = 1, prev_hash = Some ''005936'', blk_timestamp = 1, nonce = 0,
      txs = [\<lparr>inputs = [], outputs = [\<lparr>amount = 50, address = ''CYPHk1''\<rparr>],
              timestamp = 1, txid = Some ''006971'', coinbase = True\<rparr>],
      merkle_root = Some ''006971'', hash = Some ''005500''\<rparr>"

definition ex_chain1 :: Blockchain where
  "ex_chain1 = \<lparr>chain = [ex_genesis, ex_block1],
      utxos = [((Some ''006971'', 0), \<lparr>amount = 50, address = ''CYPHk1''\<rparr>)],
      mempool = []\<rparr>"

definition ex_tx3 :: Transaction where
  "ex_tx3 = \<lparr>inputs = [\<lparr>in_txid = Some ''006971'', in_vout = 0,
                         signature = Some ''k1/115'', pubkey = Some ''k1''\<rparr>],
             outputs = [\<lparr>amount = 30, address = ''CYPHk2''\<rparr>, \<lparr>amount = 20, address = ''CYPHk1''\<rparr>],
             timestamp = 2, txid = Some ''0011000'', coinbase = False\<rparr>"

definition ex_block2 :: Block where
  "ex_block2 = \<lparr>index = 2, prev_hash = Some ''005500'', blk_timestamp = 3, nonce = 0,
      txs = [\<lparr>inputs = [], outputs = [\<lparr>amount = 50, address = ''CYPHk3''\<rparr>],
              timestamp = 3, txid = Some ''006975'', coinbase = True\<rparr>,
             ex_tx3],
      merkle_root = Some ''00653'', hash = Some ''005433''\<rparr>"

text \<open>The ledger after \<open>ex_block2\<close>, and a transfer that names the output of \<open>ex_block1\<close> twice.\<close>

definition ex_chain2 :: Blockchain where
  "ex_chain2 = \<lparr>chain = [ex_genesis, ex_block1, ex_block2],
      utxos = [((Some ''006975'', 0), \<lparr>amount = 50, address = ''CYPHk3''\<rparr>),
               ((Some ''0011000'', 0), \<lparr>amount = 30, address = ''CYPHk2''\<rparr>),
               ((Some ''0011000'', 1), \<lparr>amount = 20, address = ''CYPHk1''\<rparr>)],
      mempool = []\<rparr>"

definition ex_self :: Blockchain_obj where
  "ex_self = \<lparr>obj_chain = chain ex_chain1, obj_utxos = 0, obj_mempool = [ex_tx3]\<rparr>"

definition ex_dup :: Transaction where
  "ex_dup = \<lparr>inputs = [\<lparr>in_txid = Some ''006971'', in_vout = 0,
                         signature = Some ''k1/110'', pubkey = Some ''k1''\<rparr>,
                       \<lparr>in_txid = Some ''006971'', in_vout = 0,
                         signature = Some ''k1/110'', pubkey = Some ''k1''\<rparr>],
             outputs = [\<lparr>amount = 100, address = ''CYPHk2''\<rparr>],
             timestamp = 2, txid = Some ''0010344'', coinbase = False\<rparr>"



text \<open>
  A block for the chain of \<open>ex_chain1\<close> whose only transaction is a coinbase with
  the txid \<open>a:b\<close>, and the ledger after it.
\<close>

definition ex_forged :: Block where
  "ex_forged = \<lparr>index = 2, prev_hash = Some ''005500'', blk_timestamp = 3, nonce = 0,
      txs = [\<lparr>inputs = [], outputs = [\<lparr>amount = 50, address = ''CYPHk9''\<rparr>],
              timestamp = 3, txid = Some ''a:b'', coinbase = True\<rparr>],
      merkle_root = Some ''a:b'', hash = Some ''005432''\<rparr>"

definition ex_chain_forged :: Blockchain where
  "ex_chain_forged = \<lparr>chain = [ex_genesis, ex_block1, ex_forged],
      utxos = [((Some ''006971'', 0), \<lparr>amount = 50, address = ''CYPHk1''\<rparr>),
               ((Some ''a:b'', 0), \<lparr>amount = 50, address = ''CYPHk9''\<rparr>)],
      mempool = []\<rparr>"

section \<open>Verified properties\<close>

subsection \<open>Merkle root\<close>










subsection \<open>Transaction verification\<close>

lemma verify_inputs_ok:
  "list_all (input_ok e u pre) ins \<Longrightarrow>
   verify_inputs e u pre ins tot = Inr (Some (tot + sum_list (map (input_amount u) ins)))"
proof (induction ins arbitrary: tot)
  case Nil
  then show ?case by simp
next
  case (Cons tin ins)
  from Cons.prems have ok: "input_ok e u pre tin" and rest: "list_all (input_ok e u pre) ins"
    by simp_all
  from ok obtain utxo sg pk where
    f: "map_of u (in_txid tin, in_vout tin) = Some utxo" "signature tin = Some sg"
       "pubkey tin = Some pk" "sg \<noteq> []" "pk \<noteq> []" "signature_valid e pk sg pre"
       "pubkey_to_address e pk = Inr (address utxo)"
    by (auto simp: input_ok_def split: option.splits)
  from f(6) obtain pkb sgb where
    g: "fromhex e pk = Some pkb" "fromhex e sg = Some sgb" "ecdsa_verify e pkb sgb pre = None"
    by (auto simp: signature_valid_def split: option.splits)
  show ?case
    using f g Cons.IH [OF rest, of "tot + amount utxo"]
    by (simp add: truthy_def input_amount_def)
qed

lemma verify_inputs_bad:
  "\<not> list_all (input_ok e u pre) ins \<Longrightarrow> verify_inputs e u pre ins tot \<noteq> Inr (Some t)"
proof (induction ins arbitrary: tot)
  case Nil
  then show ?case by simp
next
  case (Cons tin ins)
  show ?case
  proof (cases "input_ok e u pre tin")
    case True
    with Cons.prems have "\<not> list_all (input_ok e u pre) ins" by simp
    from Cons.IH [OF this] show ?thesis
      by (auto simp: truthy_def split: option.splits sum.splits)
  next
    case False
    then show ?thesis
      by (auto simp: input_ok_def signature_valid_def truthy_def split: option.splits sum.splits)
  qed
qed

text \<open>
  C1. \<^verbatim>\<open>verify\<close> never raises: its outcome is always a returned boolean. For a
  coinbase transaction it returns true. For any other transaction it returns true
  exactly when every check passes (\<open>verify_checks\<close>): it returns false if the
  reference of an input is absent from the UTXO set, if an input lacks a signature or a
  public key, if a stored signature does not validate over the signature-stripped
  preimage with the stored public key, if the address derived from a public key differs
  from the address of the referenced UTXO, if the total output amount exceeds the total
  input amount, or if the recomputed txid differs from the stored one.
\<close>

theorem verify_sound_total:
  "verify e tx utxo_map = Inr (coinbase tx \<or> verify_checks e tx utxo_map)"
proof (cases "coinbase tx")
  case True
  then show ?thesis by (simp add: verify_def)
next
  case False
  let ?pre = "to_json e (tx_to_dict False tx)"
  show ?thesis
  proof (cases "list_all (input_ok e utxo_map ?pre) (inputs tx)")
    case True
    from verify_inputs_ok [OF True, of 0] False True show ?thesis
      by (auto simp: verify_def verify_try_def verify_checks_def Let_def)
  next
    case bad: False
    have "verify_try e tx utxo_map \<noteq> Inr True"
      using verify_inputs_bad [OF bad, of 0]
      by (auto simp: verify_try_def Let_def split: sum.splits option.splits)
    with False bad show ?thesis
      by (auto simp: verify_def verify_checks_def split: sum.splits exn.splits)
  qed
qed

theorem verify_sound_total_witness:
  "verify toy_env ex_tx ex_utxos = Inr True \<and> verify_checks toy_env ex_tx ex_utxos \<and>
   verify toy_env (ex_tx\<lparr>outputs := [\<lparr>amount = 51, address = ''CYPHk2''\<rparr>]\<rparr>) ex_utxos = Inr False"
proof -
  have a: "verify toy_env ex_tx ex_utxos = Inr True"
    by code_simp
  have b: "verify toy_env (ex_tx\<lparr>outputs := [\<lparr>amount = 51, address = ''CYPHk2''\<rparr>]\<rparr>) ex_utxos = Inr False"
    by code_simp
  from a b show ?thesis
    using verify_sound_total [of toy_env ex_tx ex_utxos] by (simp add: ex_tx_def)
qed

subsection \<open>Admission to the mempool\<close>

lemma verify_total: "\<exists>b. verify e tx u = Inr b"
  by (auto simp: verify_def split: sum.splits exn.splits)

lemma compute_txid_txid_update [simp]: "compute_txid e (tx\<lparr>txid := x\<rparr>) = compute_txid e tx"
  by (simp add: compute_txid_def tx_to_dict_def)


lemma add_transaction_admissible:
  "add_transaction e s tx0 =
     (if admissible e s (assign_txid e tx0)
      then Inr (True, s\<lparr>mempool := mempool s @ [assign_txid e tx0]\<rparr>)
      else Inr (False, s))"
proof -
  obtain b where "verify e (assign_txid e tx0) (utxos s) = Inr b"
    using verify_total by blast
  then show ?thesis
    by (cases b) (auto simp: add_transaction_def admissible_def assign_txid_def pending_refs_def Let_def)
qed



subsection \<open>Block validation and acceptance\<close>

lemma spend_inputs_present:
  "refs_present d (map (\<lambda>i. (in_txid i, in_vout i)) ins) \<Longrightarrow>
   spend_inputs d ins = (True, fold AList.delete (map (\<lambda>i. (in_txid i, in_vout i)) ins) d)"
  by (induction ins arbitrary: d) (auto simp: Let_def)

lemma spend_inputs_absent:
  "\<not> refs_present d (map (\<lambda>i. (in_txid i, in_vout i)) ins) \<Longrightarrow>
   \<exists>d1. spend_inputs d ins = (False, d1)"
  by (induction ins arbitrary: d) (auto simp: Let_def)

lemma validate_txs_eq:
  "validate_txs e d ts = Inr (if replay_ok e d ts then Some (foldl tx_effect d ts) else None)"
proof (induction ts arbitrary: d)
  case Nil
  then show ?case by simp
next
  case (Cons tx ts)
  obtain b where b: "verify e tx d = Inr b" using verify_total by blast
  show ?case
  proof (cases "coinbase tx")
    case True
    then show ?thesis using Cons.IH by (simp add: tx_effect_def)
  next
    case False
    then show ?thesis
      using b Cons.IH [of "tx_effect d tx"] spend_inputs_present [of d "inputs tx"]
        spend_inputs_absent [of d "inputs tx"]
      by (cases b; cases "refs_present d (refs tx)") (auto simp: tx_effect_def refs_def)
  qed
qed




text \<open>
  C2. \<^verbatim>\<open>validate_block\<close> returns true only if (and, as it happens, if)
  \<open>b.prev_hash\<close> is the hash of the previous block; the stored hash is the hash
  recomputed from the header, is not empty and begins with \<open>DIFFICULTY\<close> zero
  characters; the Merkle root recomputed from the txids is the stored one; the first
  transaction is a coinbase whose outputs sum to \<open>BLOCK_REWARD\<close> exactly; and the
  replay of the transactions, in order, against a copy of the UTXO set succeeds: every
  non-coinbase transaction verifies and every reference is present in the copy as it
  evolves, the effects of each transaction applied before the next is checked.
\<close>

theorem validate_block_only_if:
  "(validate_block e d b p = Inr True) =
     (prev_hash b = hash p \<and>
      hash b = Some (compute_hash e b) \<and> compute_hash e b \<noteq> [] \<and>
      startswith (compute_hash e b) (zeros (DIFFICULTY e)) \<and>
      compute_merkle e b = Inr (merkle_root b) \<and>
      txs b \<noteq> [] \<and> coinbase (hd (txs b)) \<and>
      sum_list (map amount (outputs (hd (txs b)))) = BLOCK_REWARD e \<and>
      replay_ok e d (txs b))"
proof (cases "compute_merkle e b")
  case (Inl x)
  then show ?thesis by (auto simp: validate_block_def)
next
  case (Inr m)
  then show ?thesis
    by (cases "hash b")
       (auto simp: validate_block_def validate_txs_eq truthy_def or_else_def)
qed

theorem validate_block_only_if_witness:
  "validate_block toy_env (utxos ex_chain1) ex_block2 ex_block1 = Inr True \<and>
   replay_ok toy_env (utxos ex_chain1) (txs ex_block2) \<and>
   compute_merkle toy_env ex_block2 = Inr (Some ''00653'') \<and>
   compute_hash toy_env ex_block2 = ''005433'' \<and>
   validate_block toy_env (utxos ex_chain1) (ex_block2\<lparr>prev_hash := Some ''005936''\<rparr>) ex_block1
     = Inr False"
proof -
  have a: "validate_block toy_env (utxos ex_chain1) ex_block2 ex_block1 = Inr True"
    by code_simp
  have b: "validate_block toy_env (utxos ex_chain1) (ex_block2\<lparr>prev_hash := Some ''005936''\<rparr>) ex_block1
     = Inr False"
    by code_simp
  have c: "merkle_root ex_block2 = Some ''00653''" "hash ex_block2 = Some ''005433''"
    by (simp_all add: ex_block2_def)
  from a have
    "replay_ok toy_env (utxos ex_chain1) (txs ex_block2)"
    "compute_merkle toy_env ex_block2 = Inr (merkle_root ex_block2)"
    "hash ex_block2 = Some (compute_hash toy_env ex_block2)"
    using validate_block_only_if [of toy_env "utxos ex_chain1" ex_block2 ex_block1]
    by simp_all
  with a b c show ?thesis
    by simp
qed



subsection \<open>Validation leaves the ledger alone\<close>

lemma add_outputs_h_eq:
  "c < length st \<Longrightarrow> add_outputs_h t st c idx outs = st[c := add_outputs t (st ! c) idx outs]"
  by (induction outs arbitrary: st idx) simp_all

lemma spend_inputs_h_eq:
  "c < length st \<Longrightarrow>
   spend_inputs_h st c ins =
     (fst (spend_inputs (st ! c) ins), st[c := snd (spend_inputs (st ! c) ins)])"
  by (induction ins arbitrary: st) (simp_all add: Let_def)

lemma validate_txs_h_eq:
  "c < length st \<Longrightarrow>
   \<exists>d. validate_txs_h e st c ts = (outcome (validate_txs e (st ! c) ts), st[c := d])"
proof (induction ts arbitrary: st)
  case Nil
  have "st = st[c := st ! c]" by simp
  then show ?case unfolding validate_txs_h.simps validate_txs.simps outcome_def
    by (metis option.simps(5) sum.simps(6))
next
  case (Cons tx ts)
  obtain b where b: "verify e tx (st ! c) = Inr b" using verify_total by blast
  show ?case
  proof (cases "coinbase tx")
    case True
    let ?st1 = "st[c := add_outputs (txid tx) (st ! c) 0 (outputs tx)]"
    from Cons.prems have "c < length ?st1" by simp
    from Cons.IH [OF this] obtain d where
      "validate_txs_h e ?st1 c ts = (outcome (validate_txs e (?st1 ! c) ts), ?st1[c := d])" by blast
    with True Cons.prems show ?thesis
      by (auto simp: add_outputs_h_eq)
  next
    case False
    obtain ok d1 where sp: "spend_inputs (st ! c) (inputs tx) = (ok, d1)" by fastforce
    let ?st1 = "st[c := add_outputs (txid tx) d1 0 (outputs tx)]"
    from Cons.prems have "c < length ?st1" by simp
    from Cons.IH [OF this] obtain d where
      ih: "validate_txs_h e ?st1 c ts = (outcome (validate_txs e (?st1 ! c) ts), ?st1[c := d])" by blast
    have same: "st = st[c := st ! c]" by simp
    show ?thesis
    proof (cases "b \<and> ok")
      case True
      with False b sp ih Cons.prems show ?thesis
        by (auto simp: add_outputs_h_eq spend_inputs_h_eq)
    next
      case False
      with \<open>\<not> coinbase tx\<close> b sp Cons.prems same show ?thesis
        by (cases b; cases ok) (auto simp: spend_inputs_h_eq outcome_def intro: exI [of _ "st ! c"])
    qed
  qed
qed

lemma validate_block_outcome:
  "validate_block e d block prev =
     (if prev_hash block \<noteq> hash prev then Inr False
      else if \<not> truthy (hash block) \<or> \<not> startswith (or_else (hash block) []) (zeros (DIFFICULTY e))
        then Inr False
      else if Some (compute_hash e block) \<noteq> hash block then Inr False
      else case compute_merkle e block of Inl x \<Rightarrow> Inl x
        | Inr m \<Rightarrow>
            if m \<noteq> merkle_root block then Inr False
            else if txs block = [] \<or> \<not> coinbase (hd (txs block)) then Inr False
            else if sum_list (map amount (outputs (hd (txs block)))) \<noteq> BLOCK_REWARD e
              then Inr False
            else outcome (validate_txs e d (txs block)))"
  by (simp add: validate_block_def outcome_def split: sum.splits option.splits)

text \<open>
  C5. Running \<^verbatim>\<open>validate_block\<close> leaves the ledger as it was, whether it returns
  true, returns false or raises: \<^verbatim>\<open>self\<close> (chain, mempool and the reference to the
  UTXO dict) is unchanged, every dict object that existed before the call has the
  entries it had, the live UTXO dict among them, and the outcome is that of
  \<open>validate_block\<close> on the entries of the live UTXO dict. The replay writes only to
  the copy.
\<close>

theorem validate_block_h_frame:
  "obj_utxos self < length st \<Longrightarrow>
   (case validate_block_h e self st b p of
      (r, self', st') \<Rightarrow>
        self' = self \<and> take (length st) st' = st \<and>
        st' ! obj_utxos self = st ! obj_utxos self \<and>
        r = validate_block e (st ! obj_utxos self) b p)"
proof -
  assume a: "obj_utxos self < length st"
  let ?st1 = "st @ [st ! obj_utxos self]"
  have c: "length st < length ?st1" by simp
  from validate_txs_h_eq [OF c, of e "txs b"] obtain d where
    d: "validate_txs_h e ?st1 (length st) (txs b)
          = (outcome (validate_txs e (st ! obj_utxos self) (txs b)), ?st1[length st := d])"
    by auto
  have t: "take (length st) (?st1[length st := d]) = st" by simp
  have n: "(?st1[length st := d]) ! obj_utxos self = st ! obj_utxos self"
    using a by (simp add: nth_append)
  show ?thesis
    unfolding validate_block_outcome
    using d t n by (simp add: validate_block_h_def dict_copy_def split: sum.splits)
qed

theorem validate_block_h_frame_witness:
  "obj_utxos ex_self < length [utxos ex_chain1] \<and>
   validate_block_h toy_env ex_self [utxos ex_chain1] ex_block2 ex_block1
     = (Inr True, ex_self,
        [utxos ex_chain1,
         [((Some ''006975'', 0), \<lparr>amount = 50, address = ''CYPHk3''\<rparr>),
          ((Some ''0011000'', 0), \<lparr>amount = 30, address = ''CYPHk2''\<rparr>),
          ((Some ''0011000'', 1), \<lparr>amount = 20, address = ''CYPHk1''\<rparr>)]]) \<and>
   validate_block toy_env (utxos ex_chain1) ex_block2 ex_block1 = Inr True"
proof -
  have a: "obj_utxos ex_self < length [utxos ex_chain1]"
    by (simp add: ex_self_def)
  have b: "validate_block_h toy_env ex_self [utxos ex_chain1] ex_block2 ex_block1
     = (Inr True, ex_self,
        [utxos ex_chain1,
         [((Some ''006975'', 0), \<lparr>amount = 50, address = ''CYPHk3''\<rparr>),
          ((Some ''0011000'', 0), \<lparr>amount = 30, address = ''CYPHk2''\<rparr>),
          ((Some ''0011000'', 1), \<lparr>amount = 20, address = ''CYPHk1''\<rparr>)]])"
    by code_simp
  have c: "[utxos ex_chain1] ! obj_utxos ex_self = utxos ex_chain1"
    by (simp add: ex_self_def)
  from validate_block_h_frame [OF a, of toy_env ex_block2 ex_block1] a b c show ?thesis
    by simp
qed

subsection \<open>Coinbase transactions\<close>

lemma mine_loop_txs: "mine_loop e pfx clock b = Some b' \<Longrightarrow> txs b' = txs b"
proof (rule mine_loop.raw_induct [where P = "\<lambda>e pfx clock b b'. txs b' = txs b"])
  fix loop :: "env \<Rightarrow> string \<Rightarrow> (int \<Rightarrow> real) \<Rightarrow> Block \<Rightarrow> Block option"
    and e pfx clock and b b' :: Block
  assume ih: "\<And>e pfx clock b b'. loop e pfx clock b = Some b' \<Longrightarrow> txs b' = txs b"
  assume st: "(if startswith (compute_hash e b) pfx
      then Some (b\<lparr>hash := Some (compute_hash e b)\<rparr>)
      else loop e pfx clock
            (if (nonce b + 1) mod 100000 = 0
             then b\<lparr>nonce := nonce b + 1, blk_timestamp := clock (nonce b + 1)\<rparr>
             else b\<lparr>nonce := nonce b + 1\<rparr>)) = Some b'"
  show "txs b' = txs b"
  proof (cases "startswith (compute_hash e b) pfx")
    case True
    with st show ?thesis by auto
  next
    case False
    with st have "loop e pfx clock
             (if (nonce b + 1) mod 100000 = 0
              then b\<lparr>nonce := nonce b + 1, blk_timestamp := clock (nonce b + 1)\<rparr>
              else b\<lparr>nonce := nonce b + 1\<rparr>) = Some b'" by simp
    from ih [OF this] show ?thesis by (simp split: if_splits)
  qed
qed

lemma mine_block_txs: "mine_block e b d clock = Some (Inr b') \<Longrightarrow> txs b' = txs b"
  by (auto simp: mine_block_def split: sum.splits dest: mine_loop_txs)

lemma select_txs_prefix: "select_txs e d pool sel = Inr selected \<Longrightarrow> \<exists>rest. selected = sel @ rest"
proof (induction pool arbitrary: d sel)
  case Nil
  then show ?case by simp
next
  case (Cons tx pool)
  then show ?case
    by (fastforce split: sum.splits if_splits)
qed

text \<open>
  C6, as stated, fails on the genesis block: the coinbase that \<^verbatim>\<open>_init_genesis\<close>
  builds has no output at all.
\<close>

theorem genesis_coinbase_no_output:
  "init_genesis toy_env 0 0 ex_clock = Some (Inr \<lparr>chain = [ex_genesis], utxos = [], mempool = []\<rparr>) \<and>
   txs ex_genesis = [genesis_tx toy_env 0] \<and>
   coinbase (genesis_tx toy_env 0) \<and>
   outputs (genesis_tx toy_env 0) = [] \<and>
   length (outputs (genesis_tx toy_env 0)) \<noteq> 1"
proof -
  have "init_genesis toy_env 0 0 ex_clock = Some (Inr \<lparr>chain = [ex_genesis], utxos = [], mempool = []\<rparr>)"
    by code_simp
  moreover have "txs ex_genesis = [genesis_tx toy_env 0]"
    by code_simp
  ultimately show ?thesis
    by (simp add: genesis_tx_def)
qed

text \<open>
  C6, amended. A coinbase transaction built by \<^verbatim>\<open>make_coinbase\<close> has an empty input
  list and exactly one output, of the amount and to the address passed; the first
  transaction of every block that \<^verbatim>\<open>mine\<close> returns is the one it builds for the miner
  with the fixed block reward. The coinbase of the genesis block, the only transaction
  of the chain that genesis initialization commits, has an empty input list and no
  output.
\<close>

theorem coinbase_shapes:
  "inputs (make_coinbase e a amt now) = [] \<and>
   outputs (make_coinbase e a amt now) = [\<lparr>amount = amt, address = a\<rparr>] \<and>
   coinbase (make_coinbase e a amt now) \<and>
   inputs (genesis_tx e now) = [] \<and> outputs (genesis_tx e now) = [] \<and>
   coinbase (genesis_tx e now) \<and>
   (mine e s miner now_tx now_blk clock = Some (Inr (Some blk, s')) \<longrightarrow>
      (\<exists>rest. txs blk = make_coinbase e miner (BLOCK_REWARD e) now_tx # rest)) \<and>
   (init_genesis e now_tx now_blk clock = Some (Inr g) \<longrightarrow>
      map txs (chain g) = [[genesis_tx e now_tx]])"
proof (intro conjI impI)
  assume m: "mine e s miner now_tx now_blk clock = Some (Inr (Some blk, s'))"
  let ?cb = "make_coinbase e miner (BLOCK_REWARD e) now_tx"
  from m obtain selected where sel: "select_txs e (utxos s) (mempool s) [?cb] = Inr selected"
    by (auto simp: mine_def Let_def split: sum.splits)
  from m sel obtain tip where tip: "latest_block s = Inr tip"
    by (auto simp: mine_def Let_def split: sum.splits)
  let ?b = "\<lparr>index = int (length (chain s)), prev_hash = hash tip,
             blk_timestamp = now_blk, nonce = 0, txs = selected,
             merkle_root = None, hash = None\<rparr>"
  from m sel tip have "mine_block e ?b (DIFFICULTY e) clock = Some (Inr blk)"
    by (auto simp: mine_def Let_def split: sum.splits option.splits if_splits)
  then have "txs blk = selected" using mine_block_txs by fastforce
  with select_txs_prefix [OF sel]
  show "\<exists>rest. txs blk = ?cb # rest" by auto
next
  assume g: "init_genesis e now_tx now_blk clock = Some (Inr g)"
  then obtain gb where
    gb: "mine_block e \<lparr>index = 0, prev_hash = Some (GENESIS_MESSAGE e),
                         blk_timestamp = now_blk, nonce = 0, txs = [genesis_tx e now_tx],
                         merkle_root = None, hash = None\<rparr> (DIFFICULTY e) clock = Some (Inr gb)"
    and ch: "chain g = [gb]"
    by (auto simp: init_genesis_def split: option.splits sum.splits)
  from mine_block_txs [OF gb] ch show "map txs (chain g) = [[genesis_tx e now_tx]]" by simp
qed (simp_all add: make_coinbase_def genesis_tx_def)

theorem coinbase_shapes_witness:
  "mine toy_env (ex_chain1\<lparr>mempool := [ex_tx3]\<rparr>) ''CYPHk3'' 3 3 ex_clock
     = Some (Inr (Some ex_block2, ex_chain2)) \<and>
   hd (txs ex_block2) = make_coinbase toy_env ''CYPHk3'' (BLOCK_REWARD toy_env) 3 \<and>
   init_genesis toy_env 0 0 ex_clock = Some (Inr \<lparr>chain = [ex_genesis], utxos = [], mempool = []\<rparr>) \<and>
   txs ex_genesis = [genesis_tx toy_env 0]"
proof -
  have a: "mine toy_env (ex_chain1\<lparr>mempool := [ex_tx3]\<rparr>) ''CYPHk3'' 3 3 ex_clock
     = Some (Inr (Some ex_block2, ex_chain2))"
    by code_simp
  have b: "init_genesis toy_env 0 0 ex_clock
     = Some (Inr \<lparr>chain = [ex_genesis], utxos = [], mempool = []\<rparr>)"
    by code_simp
  have "mine toy_env (ex_chain1\<lparr>mempool := [ex_tx3]\<rparr>) ''CYPHk3'' 3 3 ex_clock
      = Some (Inr (Some ex_block2, ex_chain2)) \<longrightarrow>
    (\<exists>rest. txs ex_block2 = make_coinbase toy_env ''CYPHk3'' (BLOCK_REWARD toy_env) 3 # rest)"
    using coinbase_shapes [where e = toy_env and s = "ex_chain1\<lparr>mempool := [ex_tx3]\<rparr>"
        and miner = "''CYPHk3''" and now_tx = 3 and now_blk = 3 and clock = ex_clock
        and blk = ex_block2 and s' = ex_chain2]
    by blast
  with a have c: "hd (txs ex_block2) = make_coinbase toy_env ''CYPHk3'' (BLOCK_REWARD toy_env) 3"
    by auto
  have "init_genesis toy_env 0 0 ex_clock
      = Some (Inr \<lparr>chain = [ex_genesis], utxos = [], mempool = []\<rparr>) \<longrightarrow>
    map txs (chain \<lparr>chain = [ex_genesis], utxos = [], mempool = []\<rparr>) = [[genesis_tx toy_env 0]]"
    using coinbase_shapes [where e = toy_env and now_tx = 0 and now_blk = 0 and clock = ex_clock
        and g = "\<lparr>chain = [ex_genesis], utxos = [], mempool = []\<rparr>"]
    by blast
  with b have d: "txs ex_genesis = [genesis_tx toy_env 0]"
    by simp
  from a b c d show ?thesis
    by simp
qed

subsection \<open>A transaction that names one output twice\<close>

lemma del_inputs_absent:
  "map_of d r = None \<Longrightarrow> r \<in> set (map (\<lambda>i. (in_txid i, in_vout i)) ins) \<Longrightarrow>
   del_inputs d ins = Inl KeyError"
proof (induction ins arbitrary: d)
  case Nil
  then show ?case by simp
next
  case (Cons i ins)
  show ?case
  proof (cases "map_of d (in_txid i, in_vout i) = None")
    case True
    then show ?thesis by simp
  next
    case False
    with Cons.prems have "r \<in> set (map (\<lambda>i. (in_txid i, in_vout i)) ins)" by auto
    moreover have "map_of (AList.delete (in_txid i, in_vout i) d) r = None"
      using Cons.prems(1) by (simp add: delete_conv')
    ultimately show ?thesis using Cons.IH False by (simp add: Let_def)
  qed
qed

lemma del_inputs_duplicate:
  "\<not> distinct (map (\<lambda>i. (in_txid i, in_vout i)) ins) \<Longrightarrow> del_inputs d ins = Inl KeyError"
proof (induction ins arbitrary: d)
  case Nil
  then show ?case by simp
next
  case (Cons i ins)
  let ?r = "(in_txid i, in_vout i)"
  show ?case
  proof (cases "map_of d ?r = None")
    case True
    then show ?thesis by simp
  next
    case False
    show ?thesis
    proof (cases "?r \<in> set (map (\<lambda>i. (in_txid i, in_vout i)) ins)")
      case True
      have "map_of (AList.delete ?r d) ?r = None" by (simp add: delete_conv')
      from del_inputs_absent [OF this True] False show ?thesis by (simp add: Let_def)
    next
      case notin: False
      with Cons.prems have "\<not> distinct (map (\<lambda>i. (in_txid i, in_vout i)) ins)" by simp
      from Cons.IH [OF this] False show ?thesis by (simp add: Let_def)
    qed
  qed
qed

text \<open>
  C10. A non-coinbase transaction whose input list holds the same \<open>(txid, vout)\<close>
  twice can verify (the referenced amount is added once for each occurrence), and
  \<^verbatim>\<open>add_transaction\<close> then admits it into an empty mempool (it compares the inputs
  with those of the other pending transactions only). \<^verbatim>\<open>mine\<close> on that ledger raises
  \<^verbatim>\<open>KeyError\<close> at the second \<^verbatim>\<open>del utxo_temp[...]\<close>: it returns neither a block nor
  \<^verbatim>\<open>None\<close>. \<open>ex_dup\<close> is such a transaction: two references to one output of
  50, and an output of 100.
\<close>

theorem duplicate_input_breaks_mine:
  "\<not> coinbase tx \<and> \<not> distinct (refs tx) \<and>
   verify e tx (utxos s) = Inr True \<and> mempool s = [] \<longrightarrow>
     add_transaction e s tx = Inr (True, s\<lparr>mempool := [tx]\<rparr>) \<and>
     mine e (s\<lparr>mempool := [tx]\<rparr>) miner now_tx now_blk clock = Some (Inl KeyError)"
proof (intro impI)
  assume a: "\<not> coinbase tx \<and> \<not> distinct (refs tx) \<and>
   verify e tx (utxos s) = Inr True \<and> mempool s = []"
  then have "verify_try e tx (utxos s) = Inr True"
    by (auto simp: verify_def split: sum.splits exn.splits)
  then have id: "txid tx = Some (compute_txid e tx)"
    by (auto simp: verify_try_def Let_def split: sum.splits option.splits if_splits)
  then have same: "assign_txid e tx = tx"
    by (cases tx) (auto simp: assign_txid_def)
  have adm: "admissible e s tx" using a by (simp add: admissible_def pending_refs_def list_ex_iff)
  have 1: "add_transaction e s tx = Inr (True, s\<lparr>mempool := [tx]\<rparr>)"
    using adm same a by (simp add: add_transaction_admissible)
  have "del_inputs (utxos s) (inputs tx) = Inl KeyError"
    using a del_inputs_duplicate by (simp add: refs_def)
  then have 2: "mine e (s\<lparr>mempool := [tx]\<rparr>) miner now_tx now_blk clock = Some (Inl KeyError)"
    using a by (simp add: mine_def Let_def)
  from 1 2 show "add_transaction e s tx = Inr (True, s\<lparr>mempool := [tx]\<rparr>) \<and>
     mine e (s\<lparr>mempool := [tx]\<rparr>) miner now_tx now_blk clock = Some (Inl KeyError)" by simp
qed

theorem duplicate_input_breaks_mine_witness:
  "\<not> coinbase ex_dup \<and> \<not> distinct (refs ex_dup) \<and> mempool ex_chain1 = [] \<and>
   verify toy_env ex_dup (utxos ex_chain1) = Inr True \<and>
   add_transaction toy_env ex_chain1 ex_dup = Inr (True, ex_chain1\<lparr>mempool := [ex_dup]\<rparr>) \<and>
   mine toy_env (ex_chain1\<lparr>mempool := [ex_dup]\<rparr>) ''CYPHk3'' 3 3 ex_clock = Some (Inl KeyError)"
proof -
  have a: "\<not> coinbase ex_dup" "\<not> distinct (refs ex_dup)" "mempool ex_chain1 = []"
    by (simp_all add: ex_dup_def refs_def ex_chain1_def)
  have b: "verify toy_env ex_dup (utxos ex_chain1) = Inr True"
    by code_simp
  from a b show ?thesis
    using duplicate_input_breaks_mine [of ex_dup toy_env ex_chain1 "''CYPHk3''" 3 3 ex_clock]
    by simp
qed

subsection \<open>Building a transfer\<close>

lemma total_amount_simps [simp]:
  "total_amount [] = 0"
  "total_amount (x # xs) = amount (snd x) + total_amount xs"
  by (simp_all add: total_amount_def split: prod.splits)










subsection \<open>Persistence round trip\<close>

text \<open>
  C9 at a ledger the code can reach. A block whose single transaction is a coinbase
  carries that transaction's txid as its Merkle root unhashed, and \<^verbatim>\<open>validate_block\<close>
  does not recompute the txid of a coinbase: \<^verbatim>\<open>try_add_block\<close> accepts
  \<open>ex_forged\<close>, whose coinbase has the txid \<open>a:b\<close>. The UTXO document then has
  the key \<open>a:b:0\<close>, which \<^verbatim>\<open>_load\<close> splits at the first colon: \<^verbatim>\<open>int("b")\<close>
  raises \<^verbatim>\<open>ValueError\<close>, and the persisted ledger cannot be loaded. With a txid such
  as \<open>ab:7\<close> the load succeeds with another key, \<open>(ab, 7)\<close>.
\<close>

theorem load_persist_colon_txid:
  "try_add_block toy_env ex_chain1 ex_forged = Inr (True, ex_chain_forged) \<and>
   load (persist ex_chain_forged) = Inl (ValueError ''invalid literal for int() with base 10'') \<and>
   load (persist (ex_chain1\<lparr>utxos := [((Some ''ab:7'', 0), \<lparr>amount = 50, address = ''CYPHk9''\<rparr>)]\<rparr>))
     = Inr (ex_chain1\<lparr>utxos := [((Some ''ab'', 7), \<lparr>amount = 50, address = ''CYPHk9''\<rparr>)]\<rparr>)"
proof -
  have "try_add_block toy_env ex_chain1 ex_forged = Inr (True, ex_chain_forged)"
    by code_simp
  moreover have "load (persist ex_chain_forged)
      = Inl (ValueError ''invalid literal for int() with base 10'')"
    by code_simp
  moreover have
    "load (persist (ex_chain1\<lparr>utxos := [((Some ''ab:7'', 0), \<lparr>amount = 50, address = ''CYPHk9''\<rparr>)]\<rparr>))
     = Inr (ex_chain1\<lparr>utxos := [((Some ''ab'', 7), \<lparr>amount = 50, address = ''CYPHk9''\<rparr>)]\<rparr>)"
    by code_simp
  ultimately show ?thesis by simp
qed

lemma bind_Inr [simp]: "bind (Inr v) f = f v"
  by (simp add: bind_def)

lemma map_exn_map: "(\<And>x. f (g x) = Inr x) \<Longrightarrow> map_exn f (map g xs) = Inr xs"
  by (induction xs) simp_all

lemma load_input_doc: "load_input (input_to_dict True i) = Inr i"
  by (cases "in_txid i"; cases "signature i"; cases "pubkey i")
     (simp_all add: load_input_def input_to_dict_def opt_str_def as_opt_str_def as_int_def)

lemma load_output_doc: "load_output (output_to_dict out) = Inr out"
  by (auto simp: load_output_def output_to_dict_def getitem_def as_int_def as_str_def)

lemma load_tx_doc: "load_tx (tx_doc t) = Inr t"
  by (cases "txid t")
     (simp_all add: load_tx_def tx_doc_def tx_to_dict_def getitem_def as_list_def as_float_def
        as_bool_def as_opt_str_def opt_str_def map_exn_map load_input_doc load_output_doc)

lemma load_block_doc: "load_block (block_doc b) = Inr b"
  by (cases "prev_hash b"; cases "merkle_root b"; cases "hash b")
     (simp_all add: load_block_def block_doc_def getitem_def as_list_def as_float_def
        as_int_def as_opt_str_def opt_str_def map_exn_map load_tx_doc)

lemma digit_char_code: "0 \<le> d \<Longrightarrow> d < 10 \<Longrightarrow> (of_char (digit_char d) :: int) = 48 + d"
  by (simp add: digit_char_def)

lemma is_digit_digit_char: "0 \<le> d \<Longrightarrow> d < 10 \<Longrightarrow> is_digit (digit_char d)"
  by (simp add: is_digit_def digit_char_code)

lemma str_digits_digits: "0 \<le> n \<Longrightarrow> list_all is_digit (str_digits n) \<and> str_digits n \<noteq> []"
proof (induction n rule: str_digits.induct)
  case (1 n)
  show ?case
  proof (cases "n < 10")
    case True
    with 1 show ?thesis
      by (subst str_digits.simps, subst (2) str_digits.simps) (simp add: is_digit_digit_char)
  next
    case False
    then have "0 \<le> n div 10" by simp
    with 1 False have ih: "list_all is_digit (str_digits (n div 10))" by simp
    have "is_digit (digit_char (n mod 10))" by (simp add: is_digit_digit_char)
    with ih False show ?thesis
      by (subst str_digits.simps, subst (2) str_digits.simps) simp
  qed
qed

lemma parse_digits_all:
  "list_all is_digit ds \<Longrightarrow> ds \<noteq> [] \<or> b \<Longrightarrow> parse_digits acc b ds = Some (digits_value acc ds)"
  by (induction ds arbitrary: acc b) (simp_all add: digits_value_def)

lemma digits_value_str_digits: "0 \<le> n \<Longrightarrow> digits_value 0 (str_digits n) = n"
proof (induction n rule: str_digits.induct)
  case (1 n)
  show ?case
  proof (cases "n < 10")
    case True
    with 1 show ?thesis
      by (subst str_digits.simps) (simp add: digits_value_def digit_char_code)
  next
    case False
    then have "0 \<le> n div 10" by simp
    with 1 False have ih: "digits_value 0 (str_digits (n div 10)) = n div 10" by simp
    have d: "(of_char (digit_char (n mod 10)) :: int) = 48 + n mod 10"
      by (simp add: digit_char_code)
    have "digits_value 0 (str_digits n)
        = digits_value 0 (str_digits (n div 10)) * 10 + (of_char (digit_char (n mod 10)) - 48)"
      using False by (subst str_digits.simps) (simp add: digits_value_def)
    with ih d show ?thesis by simp
  qed
qed

lemma is_digit_not_space: "is_digit c \<Longrightarrow> \<not> is_space c"
  by (auto simp: is_digit_def is_space_def)

lemma is_digit_not_special: "is_digit c \<Longrightarrow> c \<noteq> CHR '':'' \<and> c \<noteq> CHR ''-'' \<and> c \<noteq> CHR ''+''"
  by (auto simp: is_digit_def)

lemma strip_id: "s \<noteq> [] \<Longrightarrow> \<not> is_space (hd s) \<Longrightarrow> \<not> is_space (last s) \<Longrightarrow> strip s = s"
proof -
  assume a: "s \<noteq> []" "\<not> is_space (hd s)" "\<not> is_space (last s)"
  then have 1: "dropWhile is_space s = s" by (cases s) simp_all
  from a have "rev s \<noteq> []" "\<not> is_space (hd (rev s))" by (simp_all add: hd_rev)
  then have 2: "dropWhile is_space (rev s) = rev s" by (cases "rev s") simp_all
  from 1 2 show ?thesis by (simp add: strip_def)
qed

lemma py_int_str_int: "py_int (str_int v) = Inr v"
proof (cases "v < 0")
  case False
  then have nn: "0 \<le> v" by simp
  from str_digits_digits [OF nn] have d: "list_all is_digit (str_digits v)" "str_digits v \<noteq> []"
    by simp_all
  then obtain c cs where cs: "str_digits v = c # cs" by (cases "str_digits v") auto
  from d have "is_digit (hd (str_digits v))" "is_digit (last (str_digits v))"
    by (auto simp: list_all_iff)
  then have "strip (str_digits v) = str_digits v"
    using d(2) by (intro strip_id) (simp_all add: is_digit_not_space)
  moreover from d cs have "is_digit c" by simp
  then have "c \<noteq> CHR ''-''" "c \<noteq> CHR ''+''" using is_digit_not_special by blast+
  moreover have "parse_digits 0 False (str_digits v) = Some v"
    using parse_digits_all [OF d(1), of False 0] d(2) digits_value_str_digits [OF nn] by simp
  ultimately show ?thesis using False cs by (simp add: py_int_def str_int_def)
next
  case True
  then have nn: "0 \<le> - v" by simp
  from str_digits_digits [OF nn] have d: "list_all is_digit (str_digits (- v))" "str_digits (- v) \<noteq> []"
    by simp_all
  let ?s = "CHR ''-'' # str_digits (- v)"
  from d have "is_digit (last (str_digits (- v)))" by (auto simp: list_all_iff)
  then have "\<not> is_space (last ?s)" using d(2) by (simp add: is_digit_not_space)
  moreover have "\<not> is_space (hd ?s)" by (simp add: is_space_def)
  ultimately have "strip ?s = ?s" by (intro strip_id) simp_all
  moreover have "parse_digits 0 False (str_digits (- v)) = Some (- v)"
    using parse_digits_all [OF d(1), of False 0] d(2) digits_value_str_digits [OF nn] by simp
  ultimately show ?thesis using True by (simp add: py_int_def str_int_def)
qed

lemma str_int_no_colon: "CHR '':'' \<notin> set (str_int v)"
proof -
  have "\<And>n. 0 \<le> n \<Longrightarrow> CHR '':'' \<notin> set (str_digits n)"
    using str_digits_digits is_digit_not_special by (fastforce simp: list_all_iff)
  then show ?thesis by (simp add: str_int_def)
qed

lemma split_colon_none: "CHR '':'' \<notin> set r \<Longrightarrow> split_colon r = [r]"
  by (induction r) auto

lemma split_colon_first:
  "CHR '':'' \<notin> set t \<Longrightarrow> split_colon (t @ CHR '':'' # r) = t # split_colon r"
  by (induction t) auto

lemma load_key_fmt_key:
  "CHR '':'' \<notin> set t \<Longrightarrow> load_key (fmt_key (Some t, v)) = Inr (Some t, v)"
  by (simp add: load_key_def fmt_key_def str_opt_def split_colon_first
      split_colon_none [OF str_int_no_colon] py_int_str_int)

lemma load_key_good: "good_key k \<Longrightarrow> load_key (fmt_key k) = Inr k"
  by (cases k) (auto simp: good_key_def load_key_fmt_key split: option.splits)

lemma fmt_key_inj: "good_key k \<Longrightarrow> good_key k' \<Longrightarrow> fmt_key k = fmt_key k' \<Longrightarrow> k = k'"
  using load_key_good by (metis sum.inject(2))

lemma update_fresh: "k \<notin> fst ` set al \<Longrightarrow> AList.update k v al = al @ [(k, v)]"
  by (induction al) auto

lemma utxo_doc_entries:
  "list_all (\<lambda>(k, out). good_key k) d \<Longrightarrow> distinct (map fst (acc @ d)) \<Longrightarrow>
   list_all (\<lambda>(k, out). good_key k) acc \<Longrightarrow>
   foldl (\<lambda>a (k, out). AList.update (fmt_key k) (output_to_dict out) a)
     (map (\<lambda>(k, out). (fmt_key k, output_to_dict out)) acc) d
   = map (\<lambda>(k, out). (fmt_key k, output_to_dict out)) (acc @ d)"
proof (induction d arbitrary: acc)
  case Nil
  then show ?case by simp
next
  case (Cons x d)
  obtain k out where x: "x = (k, out)" by (cases x)
  from Cons.prems x have gk: "good_key k" and knew: "k \<notin> fst ` set acc" by auto
  have fresh: "fmt_key k \<notin> fst ` set (map (\<lambda>(k, out). (fmt_key k, output_to_dict out)) acc)"
  proof
    assume "fmt_key k \<in> fst ` set (map (\<lambda>(k, out). (fmt_key k, output_to_dict out)) acc)"
    then obtain k' out' where m: "(k', out') \<in> set acc" "fmt_key k = fmt_key k'" by auto
    with Cons.prems(3) have "good_key k'" by (auto simp: list_all_iff)
    with gk m(2) have "k = k'" using fmt_key_inj by blast
    with m(1) knew show False by force
  qed
  have step: "AList.update (fmt_key k) (output_to_dict out) (map (\<lambda>(k, out). (fmt_key k, output_to_dict out)) acc)
      = map (\<lambda>(k, out). (fmt_key k, output_to_dict out)) (acc @ [x])"
    using update_fresh [OF fresh] x by simp
  from Cons.prems x have p: "list_all (\<lambda>(k, out). good_key k) d" "distinct (map fst ((acc @ [x]) @ d))"
    "list_all (\<lambda>(k, out). good_key k) (acc @ [x])" by simp_all
  from Cons.IH [OF p] step x show ?case by simp
qed

lemma load_utxos_entries:
  "list_all (\<lambda>(k, out). good_key k) d \<Longrightarrow> distinct (map fst (acc @ d)) \<Longrightarrow>
   load_utxos (map (\<lambda>(k, out). (fmt_key k, output_to_dict out)) d) acc = Inr (acc @ d)"
proof (induction d arbitrary: acc)
  case Nil
  then show ?case by simp
next
  case (Cons x d)
  obtain k out where x: "x = (k, out)" by (cases x)
  from Cons.prems x have gk: "good_key k" and knew: "k \<notin> fst ` set acc" by auto
  from Cons.prems x have p: "list_all (\<lambda>(k, out). good_key k) d" "distinct (map fst ((acc @ [x]) @ d))"
    by simp_all
  from Cons.IH [OF p] x gk knew show ?case
    by (simp add: load_key_good load_output_doc update_fresh)
qed

text \<open>
  Away from that case the documents give the ledger back: when the keys of the UTXO set
  are distinct, as the keys of a dict are, and the txid of each is a string without a
  colon, loading what \<open>persist\<close> wrote returns the ledger, every block, transaction,
  input, output and UTXO entry field for field.
\<close>

lemma load_persist_roundtrip:
  "distinct (map fst (utxos s)) \<Longrightarrow> list_all (\<lambda>(k, out). good_key k) (utxos s) \<Longrightarrow>
   load (persist s) = Inr s"
proof -
  assume dist: "distinct (map fst (utxos s))" and good: "list_all (\<lambda>(k, out). good_key k) (utxos s)"
  have u: "utxo_doc (utxos s) = JDict (map (\<lambda>(k, out). (fmt_key k, output_to_dict out)) (utxos s))"
    using utxo_doc_entries [OF good, of "[]"] dist by (simp add: utxo_doc_def)
  have l: "load_utxos (map (\<lambda>(k, out). (fmt_key k, output_to_dict out)) (utxos s)) [] = Inr (utxos s)"
    using load_utxos_entries [OF good, of "[]"] dist by simp
  show ?thesis
    by (simp add: load_def persist_def u l getitem_def as_list_def map_exn_map load_block_doc load_tx_doc)
qed

end
